theory Spec2Isabelle
  imports Complex_Main
begin

section \<open>Eternal1OS animation engine (scripts.js)\<close>

text \<open>
  A shallow embedding of the simulation-and-rendering core of \<^verbatim>\<open>scripts.js\<close>.
  JavaScript numbers are modelled as \<^typ>\<open>real\<close> (ideal arithmetic, no rounding);
  counters and array lengths as \<^typ>\<open>nat\<close> or \<^typ>\<open>int\<close>. Mutable objects
  become records that are passed in and returned; object references into the
  \<^verbatim>\<open>heroParticles\<close> array are array indices. Every call of \<^verbatim>\<open>Math.random()\<close>
  and every clock reading is an explicit argument.
\<close>

subsection \<open>utils\<close>

definition utils_lerp :: "real \<Rightarrow> real \<Rightarrow> real \<Rightarrow> real" where
  "utils_lerp start stop factor = start + (stop - start) * factor"

text \<open>\<^verbatim>\<open>utils.random(min, max)\<close>; \<open>rnd\<close> is the value \<^verbatim>\<open>Math.random()\<close> returns.\<close>

definition utils_random :: "real \<Rightarrow> real \<Rightarrow> real \<Rightarrow> real" where
  "utils_random rnd lo hi = rnd * (hi - lo) + lo"

definition utils_distance :: "real \<Rightarrow> real \<Rightarrow> real \<Rightarrow> real \<Rightarrow> real" where
  "utils_distance x1 y1 x2 y2 =
     (let dx = x2 - x1; dy = y2 - y1 in sqrt (dx * dx + dy * dy))"

definition utils_distanceSquared :: "real \<Rightarrow> real \<Rightarrow> real \<Rightarrow> real \<Rightarrow> real" where
  "utils_distanceSquared x1 y1 x2 y2 =
     (let dx = x2 - x1; dy = y2 - y1 in dx * dx + dy * dy)"

definition utils_map :: "real \<Rightarrow> real \<Rightarrow> real \<Rightarrow> real \<Rightarrow> real \<Rightarrow> real" where
  "utils_map v start1 stop1 start2 stop2 =
     start2 + (stop2 - start2) * ((v - start1) / (stop1 - start1))"

definition utils_clamp :: "real \<Rightarrow> real \<Rightarrow> real \<Rightarrow> real" where
  "utils_clamp v lo hi = max lo (min hi v)"

definition utils_randomInt :: "real \<Rightarrow> int \<Rightarrow> int \<Rightarrow> int" where
  "utils_randomInt rnd lo hi = \<lfloor>rnd * real_of_int (hi - lo + 1)\<rfloor> + lo"

subsection \<open>DEVICE\_CONFIG and CONFIG\<close>

record DEVICE_CONFIG =
  mobile :: bool
  tablet :: bool
  desktop :: bool
  highDPI :: bool
  lowEndDevice :: bool
  reducedMotion :: bool

definition getParticleCount :: "DEVICE_CONFIG \<Rightarrow> int \<Rightarrow> int" where
  "getParticleCount dev base =
     (if reducedMotion dev then 0
      else if mobile dev then \<lfloor>real_of_int base * 0.25\<rfloor>
      else if tablet dev then \<lfloor>real_of_int base * 0.5\<rfloor>
      else if lowEndDevice dev then \<lfloor>real_of_int base * 0.7\<rfloor>
      else base)"

definition getAnimationSpeed :: "DEVICE_CONFIG \<Rightarrow> real \<Rightarrow> real" where
  "getAnimationSpeed dev base =
     (if reducedMotion dev then 0
      else if mobile dev then base * 0.5
      else if lowEndDevice dev then base * 0.8
      else base)"

text \<open>
  The fields of \<^verbatim>\<open>CONFIG\<close> the engine reads. \<open>matrix_characters\<close> is the glyph
  table as UTF-16 code units: the digits 0 and 1, 46 katakana, and the letters A to Z.
\<close>

record CONFIG =
  intro_duration :: real
  intro_particleCount :: int
  hero_particleCount :: int
  hero_mouseInfluence :: real
  hero_connectionDistance :: real
  hero_maxConnections :: nat
  matrix_characters :: "nat list"
  matrix_columns :: int
  matrix_speed :: real
  matrix_maxTrailLength :: real
  performance_targetFPS :: real
  performance_spatialOptimization :: bool

definition matrix_glyphs :: "nat list" where
  "matrix_glyphs =
     [48, 49, 12450, 12452, 12454, 12456, 12458, 12459, 12461, 12463, 12465, 12467,
      12469, 12471, 12473, 12475, 12477, 12479, 12481, 12484, 12486, 12488, 12490,
      12491, 12492, 12493, 12494, 12495, 12498, 12501, 12504, 12507, 12510, 12511,
      12512, 12513, 12514, 12516, 12518, 12520, 12521, 12522, 12523, 12524, 12525,
      12527, 12530, 12531] @ [65 ..< 91]"

definition CONFIG_init :: "DEVICE_CONFIG \<Rightarrow> CONFIG" where
  "CONFIG_init dev =
     \<lparr> intro_duration = 5000,
       intro_particleCount = getParticleCount dev 15,
       hero_particleCount = getParticleCount dev 12,
       hero_mouseInfluence = (if mobile dev then 50 else 100),
       hero_connectionDistance = (if mobile dev then 80 else 120),
       hero_maxConnections = (if mobile dev then 3 else 5),
       matrix_characters = matrix_glyphs,
       matrix_columns = getParticleCount dev 20,
       matrix_speed = getAnimationSpeed dev 2,
       matrix_maxTrailLength = (if mobile dev then 8 else 15),
       performance_targetFPS = (if mobile dev then 30 else 60),
       performance_spatialOptimization = True \<rparr>"

subsection \<open>PerformanceMonitor.getAverageFPS\<close>

text \<open>\<^verbatim>\<open>Math.round\<close> rounds half up: \<open>\<lfloor>v + 1/2\<rfloor>\<close>.\<close>

definition Math_round :: "real \<Rightarrow> int" where
  "Math_round v = \<lfloor>v + 1 / 2\<rfloor>"

definition getAverageFPS :: "int list \<Rightarrow> int" where
  "getAverageFPS fpsHistory =
     (if length fpsHistory > 0
      then Math_round (real_of_int (sum_list fpsHistory) / real (length fpsHistory))
      else 0)"

subsection \<open>FPSController\<close>

text \<open>
  One object for the whole page: the intro, hero and matrix scenes all call
  \<^verbatim>\<open>FPSController.shouldRender\<close> on it.
\<close>

record FPSController =
  targetFPS :: real
  frameInterval :: real
  lastFrameTime :: real
  frameCount :: nat
  qualityLevel :: real

definition FPSController_init :: "CONFIG \<Rightarrow> FPSController" where
  "FPSController_init cfg =
     \<lparr> targetFPS = performance_targetFPS cfg,
       frameInterval = 1000 / performance_targetFPS cfg,
       lastFrameTime = 0,
       frameCount = 0,
       qualityLevel = 1.0 \<rparr>"

definition shouldRender :: "FPSController \<Rightarrow> real \<Rightarrow> bool \<times> FPSController" where
  "shouldRender fc currentTime =
     (if currentTime - lastFrameTime fc \<ge> frameInterval fc
      then (True, fc\<lparr> lastFrameTime := currentTime, frameCount := frameCount fc + 1 \<rparr>)
      else (False, fc))"

definition adaptPerformance :: "FPSController \<Rightarrow> CONFIG \<Rightarrow> CONFIG" where
  "adaptPerformance fc cfg =
     cfg\<lparr> hero_particleCount :=
            max 5 \<lfloor>real_of_int (hero_particleCount cfg) * qualityLevel fc\<rfloor>,
          intro_particleCount :=
            max 8 \<lfloor>real_of_int (intro_particleCount cfg) * qualityLevel fc\<rfloor>,
          matrix_columns :=
            max 10 \<lfloor>real_of_int (matrix_columns cfg) * qualityLevel fc\<rfloor> \<rparr>"

text \<open>
  \<^verbatim>\<open>updateQuality()\<close>; \<open>fpsHistory\<close> is the history \<^verbatim>\<open>PerformanceMonitor\<close> holds
  at the moment of the call.
\<close>

definition updateQuality ::
  "int list \<Rightarrow> FPSController \<times> CONFIG \<Rightarrow> FPSController \<times> CONFIG" where
  "updateQuality fpsHistory s =
     (let fc = (fst s)\<lparr> frameCount := frameCount (fst s) + 1 \<rparr>; cfg = snd s in
      if frameCount fc mod 60 = 0
      then (let avgFPS = real_of_int (getAverageFPS fpsHistory) in
            if avgFPS < targetFPS fc * 0.8
            then (let fc' = fc\<lparr> qualityLevel := max 0.3 (qualityLevel fc * 0.9) \<rparr>
                  in (fc', adaptPerformance fc' cfg))
            else if avgFPS > targetFPS fc * 0.95 \<and> qualityLevel fc < 1.0
            then (fc\<lparr> qualityLevel := min 1.0 (qualityLevel fc * 1.1) \<rparr>, cfg)
            else (fc, cfg))
      else (fc, cfg))"

text \<open>
  The calls a scene makes on the controller, in the order they happen: the frame gate
  with its timestamp, or the quality update with the monitor's history.
\<close>

datatype fps_call = ShouldRender real | UpdateQuality "int list"

fun fps_step :: "FPSController \<times> CONFIG \<Rightarrow> fps_call \<Rightarrow> FPSController \<times> CONFIG" where
  "fps_step s (ShouldRender t) = (snd (shouldRender (fst s) t), snd s)"
| "fps_step s (UpdateQuality h) = updateQuality h s"

definition fps_run :: "fps_call list \<Rightarrow> FPSController \<times> CONFIG \<Rightarrow> FPSController \<times> CONFIG" where
  "fps_run calls s = foldl fps_step s calls"

text \<open>
  What \<^verbatim>\<open>HeroCanvas.animate\<close> does to the controller in one accepted frame: the gate
  accepts, then \<^verbatim>\<open>updateQuality()\<close> runs.
\<close>

definition hero_accepted_frame :: "real \<Rightarrow> int list \<Rightarrow> fps_call list" where
  "hero_accepted_frame t h = [ShouldRender t, UpdateQuality h]"

definition desktop_device :: DEVICE_CONFIG where
  "desktop_device =
     \<lparr> mobile = False, tablet = False, desktop = True, highDPI = False,
       lowEndDevice = False, reducedMotion = False \<rparr>"

text \<open>\<open>n\<close> hero frames at times \<open>t, t + dt, \<dots>\<close>, the monitor's history being \<open>h\<close>.\<close>

fun hero_frames :: "nat \<Rightarrow> real \<Rightarrow> real \<Rightarrow> int list \<Rightarrow> fps_call list" where
  "hero_frames 0 t dt h = []"
| "hero_frames (Suc n) t dt h = hero_accepted_frame t h @ hero_frames n (t + dt) dt h"


text \<open>
  The three scenes. Each scene's \<^verbatim>\<open>animate\<close> calls
  \<^verbatim>\<open>FPSController.shouldRender(currentTime)\<close>: the caller is not an argument and
  the controller keeps one \<^verbatim>\<open>lastFrameTime\<close>.
\<close>

datatype scene = Intro | Hero | Matrix




subsection \<open>SpatialGrid\<close>

text \<open>
  The grid is an array of \<open>cols * rows\<close> cells in row-major order, each cell an array of
  entity references. \<^verbatim>\<open>new Array(n)\<close> raises a RangeError unless \<open>n\<close> is an integer in
  \<open>[0, 2\<^sup>3\<^sup>2)\<close>, which is also what a zero cell size (a division by zero) ends in: the
  constructor then returns \<open>None\<close>.
\<close>

record 'a SpatialGrid =
  sg_width :: real
  sg_height :: real
  cellSize :: real
  cols :: int
  rows :: int
  grid :: "'a list list"

definition SpatialGrid_new :: "real \<Rightarrow> real \<Rightarrow> real \<Rightarrow> 'a SpatialGrid option" where
  "SpatialGrid_new w h cs =
     (if cs = 0 then None
      else (let c = \<lceil>w / cs\<rceil>; r = \<lceil>h / cs\<rceil> in
            if 0 \<le> c * r \<and> c * r < 2 ^ 32
            then Some \<lparr> sg_width = w, sg_height = h, cellSize = cs, cols = c, rows = r,
                        grid = replicate (nat (c * r)) [] \<rparr>
            else None))"

definition SpatialGrid_clear :: "'a SpatialGrid \<Rightarrow> 'a SpatialGrid" where
  "SpatialGrid_clear g = g\<lparr> grid := map (\<lambda>cell. []) (grid g) \<rparr>"

text \<open>
  \<^verbatim>\<open>insert(particle, x, y)\<close>. With a zero cell size the quotients are infinite or NaN in
  JavaScript and the bounds test fails; the model says so explicitly.
\<close>

definition SpatialGrid_insert :: "'a SpatialGrid \<Rightarrow> 'a \<Rightarrow> real \<Rightarrow> real \<Rightarrow> 'a SpatialGrid" where
  "SpatialGrid_insert g particle x y =
     (let col = \<lfloor>x / cellSize g\<rfloor>; row = \<lfloor>y / cellSize g\<rfloor> in
      if cellSize g \<noteq> 0 \<and> col \<ge> 0 \<and> col < cols g \<and> row \<ge> 0 \<and> row < rows g
      then (let index = nat (row * cols g + col) in
            g\<lparr> grid := (grid g)[index := grid g ! index @ [particle]] \<rparr>)
      else g)"

text \<open>
  \<^verbatim>\<open>getNearby(x, y, radius)\<close>: the two nested \<^verbatim>\<open>for\<close> loops, rows outside and columns
  inside, appending the cell's entities to \<^verbatim>\<open>nearby\<close>. With a zero cell size no loop
  bound compares true and the result is empty.
\<close>

definition SpatialGrid_getNearby :: "'a SpatialGrid \<Rightarrow> real \<Rightarrow> real \<Rightarrow> real \<Rightarrow> 'a list" where
  "SpatialGrid_getNearby g x y radius =
     (if cellSize g = 0 then []
      else (let cellRadius = \<lceil>radius / cellSize g\<rceil>;
                col = \<lfloor>x / cellSize g\<rfloor>;
                row = \<lfloor>y / cellSize g\<rfloor> in
            foldl (\<lambda>nearby r.
                foldl (\<lambda>nearby c.
                    if r \<ge> 0 \<and> r < rows g \<and> c \<ge> 0 \<and> c < cols g
                    then nearby @ grid g ! nat (r * cols g + c)
                    else nearby)
                  nearby [col - cellRadius .. col + cellRadius])
              [] [row - cellRadius .. row + cellRadius]))"

text \<open>What the constructor establishes and \<^verbatim>\<open>clear\<close> and \<^verbatim>\<open>insert\<close> keep.\<close>

definition SpatialGrid_ok :: "'a SpatialGrid \<Rightarrow> bool" where
  "SpatialGrid_ok g =
     (cellSize g > 0 \<and> cols g \<ge> 0 \<and> rows g \<ge> 0 \<and> length (grid g) = nat (cols g * rows g))"

text \<open>Whether \<open>(x, y)\<close> lies in a cell of the grid: the guard of \<^verbatim>\<open>insert\<close>.\<close>

definition in_bounds :: "'a SpatialGrid \<Rightarrow> real \<Rightarrow> real \<Rightarrow> bool" where
  "in_bounds g x y =
     (0 \<le> \<lfloor>x / cellSize g\<rfloor> \<and> \<lfloor>x / cellSize g\<rfloor> < cols g
      \<and> 0 \<le> \<lfloor>y / cellSize g\<rfloor> \<and> \<lfloor>y / cellSize g\<rfloor> < rows g)"

text \<open>A sequence of \<^verbatim>\<open>insert(entity, x, y)\<close> calls.\<close>

definition insert_all :: "('a \<times> real \<times> real) list \<Rightarrow> 'a SpatialGrid \<Rightarrow> 'a SpatialGrid" where
  "insert_all ps g = foldl (\<lambda>g p. SpatialGrid_insert g (fst p) (fst (snd p)) (snd (snd p))) g ps"

text \<open>
  The block of cells \<^verbatim>\<open>getNearby\<close> visits, as (row, column) pairs in the order of the
  loops, and the content of a cell (empty for a cell outside the grid).
\<close>

definition block_cells :: "'a SpatialGrid \<Rightarrow> real \<Rightarrow> real \<Rightarrow> real \<Rightarrow> (int \<times> int) list" where
  "block_cells g x y radius =
     List.product
       [\<lfloor>y / cellSize g\<rfloor> - \<lceil>radius / cellSize g\<rceil> .. \<lfloor>y / cellSize g\<rfloor> + \<lceil>radius / cellSize g\<rceil>]
       [\<lfloor>x / cellSize g\<rfloor> - \<lceil>radius / cellSize g\<rceil> .. \<lfloor>x / cellSize g\<rfloor> + \<lceil>radius / cellSize g\<rceil>]"

definition cell_at :: "'a SpatialGrid \<Rightarrow> int \<times> int \<Rightarrow> 'a list" where
  "cell_at g rc =
     (if fst rc \<ge> 0 \<and> fst rc < rows g \<and> snd rc \<ge> 0 \<and> snd rc < cols g
      then grid g ! nat (fst rc * cols g + snd rc) else [])"

text \<open>A 200 by 200 surface in cells of 100: what \<^verbatim>\<open>new SpatialGrid(200, 200, 100)\<close> builds.\<close>

definition grid_2x2 :: "nat SpatialGrid" where
  "grid_2x2 =
     \<lparr> sg_width = 200, sg_height = 200, cellSize = 100, cols = 2, rows = 2,
       grid = [[], [], [], []] \<rparr>"

subsection \<open>Particle3D\<close>

text \<open>
  A canvas is its size. \<open>rng k\<close> is the value of the \<open>k\<close>-th call of \<^verbatim>\<open>Math.random()\<close>
  made by the operation it is passed to.
\<close>

record canvas =
  cv_width :: real
  cv_height :: real

record Particle3D =
  p3_x :: real
  p3_y :: real
  p3_z :: real
  p3_vx :: real
  p3_vy :: real
  p3_vz :: real
  p3_size :: real
  p3_baseOpacity :: real
  trail :: "(real \<times> real \<times> real) list"
  maxTrailLength :: nat
  lastTrailTime :: real

definition Particle3D_reset :: "canvas \<Rightarrow> (nat \<Rightarrow> real) \<Rightarrow> Particle3D \<Rightarrow> Particle3D" where
  "Particle3D_reset cv rng p =
     p\<lparr> p3_x := utils_random (rng 0) 0 (cv_width cv),
        p3_y := utils_random (rng 1) 0 (cv_height cv),
        p3_z := utils_random (rng 2) (- 400) 400,
        p3_vx := utils_random (rng 3) (- 1) 1,
        p3_vy := utils_random (rng 4) (- 1) 1,
        p3_vz := utils_random (rng 5) (- 2) 2,
        p3_size := utils_random (rng 6) 1 2,
        p3_baseOpacity := utils_random (rng 7) 0.3 0.7,
        trail := [],
        lastTrailTime := 0 \<rparr>"

text \<open>The constructor: an empty trail, the cap by device class, then \<^verbatim>\<open>reset()\<close>.\<close>

definition Particle3D_new :: "DEVICE_CONFIG \<Rightarrow> canvas \<Rightarrow> (nat \<Rightarrow> real) \<Rightarrow> Particle3D" where
  "Particle3D_new dev cv rng =
     Particle3D_reset cv rng
       \<lparr> p3_x = 0, p3_y = 0, p3_z = 0, p3_vx = 0, p3_vy = 0, p3_vz = 0, p3_size = 0,
         p3_baseOpacity = 0, trail = [],
         maxTrailLength = (if mobile dev then 4 else 8), lastTrailTime = 0 \<rparr>"

text \<open>\<^verbatim>\<open>shift()\<close> on an empty array does nothing, as \<^term>\<open>tl\<close> on \<open>[]\<close>.\<close>

definition Particle3D_update ::
  "canvas \<Rightarrow> (nat \<Rightarrow> real) \<Rightarrow> real \<Rightarrow> Particle3D \<Rightarrow> Particle3D" where
  "Particle3D_update cv rng currentTime p =
     (let p1 = p\<lparr> p3_x := p3_x p + p3_vx p, p3_y := p3_y p + p3_vy p,
                  p3_z := p3_z p + p3_vz p \<rparr>;
          p2 = (if currentTime - lastTrailTime p1 > 50
                then p1\<lparr> trail :=
                           (if length (trail p1) \<ge> maxTrailLength p1
                            then tl (trail p1) else trail p1)
                           @ [(p3_x p1, p3_y p1, p3_z p1)],
                         lastTrailTime := currentTime \<rparr>
                else p1)
      in if p3_x p2 < - 50 \<or> p3_x p2 > cv_width cv + 50
            \<or> p3_y p2 < - 50 \<or> p3_y p2 > cv_height cv + 50
            \<or> p3_z p2 < - 400 \<or> p3_z p2 > 400
         then Particle3D_reset cv rng p2
         else p2)"

text \<open>The bounding volume: the negation of the reset test of \<^verbatim>\<open>update\<close>.\<close>

definition in_volume :: "canvas \<Rightarrow> real \<Rightarrow> real \<Rightarrow> real \<Rightarrow> bool" where
  "in_volume cv x y z =
     (\<not> (x < - 50 \<or> x > cv_width cv + 50 \<or> y < - 50 \<or> y > cv_height cv + 50
         \<or> z < - 400 \<or> z > 400))"

text \<open>A sequence of \<^verbatim>\<open>update(currentTime)\<close> calls, each with its clock value and its draws.\<close>

definition Particle3D_run ::
  "canvas \<Rightarrow> (real \<times> (nat \<Rightarrow> real)) list \<Rightarrow> Particle3D \<Rightarrow> Particle3D" where
  "Particle3D_run cv ticks p = foldl (\<lambda>p tk. Particle3D_update cv (snd tk) (fst tk) p) p ticks"

subsection \<open>MatrixColumn\<close>

text \<open>
  A glyph is the character read from the table (\<open>None\<close> for \<^verbatim>\<open>undefined\<close>, an index
  outside the table) and its age. \<open>maxLength\<close> is drawn by \<^verbatim>\<open>utils.random\<close>: a real number.
\<close>

record glyph =
  g_char :: "nat option"
  g_age :: nat

record MatrixColumn =
  mc_x :: real
  mc_y :: real
  mc_speed :: real
  characters :: "glyph list"
  maxLength :: real
  mc_opacity :: real
  nextCharTime :: real
  fontSize :: nat

definition char_at :: "nat list \<Rightarrow> int \<Rightarrow> nat option" where
  "char_at s i = (if 0 \<le> i \<and> i < int (length s) then Some (s ! nat i) else None)"

definition MatrixColumn_reset ::
  "DEVICE_CONFIG \<Rightarrow> CONFIG \<Rightarrow> (nat \<Rightarrow> real) \<Rightarrow> MatrixColumn \<Rightarrow> MatrixColumn" where
  "MatrixColumn_reset dev cfg rng c =
     c\<lparr> mc_y := utils_random (rng 0) (- 200) (- 50),
        mc_speed := utils_random (rng 1) 1 (matrix_speed cfg),
        characters := [],
        maxLength := utils_random (rng 2) 5 (matrix_maxTrailLength cfg),
        mc_opacity := utils_random (rng 3) 0.3 0.6,
        nextCharTime := 0,
        fontSize := (if mobile dev then 10 else 13) \<rparr>"

definition MatrixColumn_new ::
  "DEVICE_CONFIG \<Rightarrow> CONFIG \<Rightarrow> (nat \<Rightarrow> real) \<Rightarrow> real \<Rightarrow> MatrixColumn" where
  "MatrixColumn_new dev cfg rng x =
     MatrixColumn_reset dev cfg rng
       \<lparr> mc_x = x, mc_y = 0, mc_speed = 0, characters = [], maxLength = 0, mc_opacity = 0,
         nextCharTime = 0, fontSize = 0 \<rparr>"

text \<open>
  The ageing loop \<^verbatim>\<open>for (i = length - 1; i >= 0; i--)\<close>: \<open>age_loop n cs\<close> runs the
  iterations \<open>i = n - 1, \<dots>, 0\<close>; each ages glyph \<open>i\<close> and splices it out once its age
  exceeds 80.
\<close>

definition aged :: "glyph \<Rightarrow> glyph" where
  "aged g = g\<lparr> g_age := g_age g + 1 \<rparr>"

fun age_loop :: "nat \<Rightarrow> glyph list \<Rightarrow> glyph list" where
  "age_loop 0 cs = cs"
| "age_loop (Suc i) cs =
     (let cs1 = cs[i := aged (cs ! i)];
          cs2 = (if g_age (cs1 ! i) > 80 then take i cs1 @ drop (Suc i) cs1 else cs1)
      in age_loop i cs2)"

text \<open>\<^verbatim>\<open>update()\<close>; \<open>now\<close> is what \<^verbatim>\<open>Date.now()\<close> returns.\<close>

definition MatrixColumn_update ::
  "DEVICE_CONFIG \<Rightarrow> CONFIG \<Rightarrow> canvas \<Rightarrow> (nat \<Rightarrow> real) \<Rightarrow> real \<Rightarrow> MatrixColumn
     \<Rightarrow> MatrixColumn" where
  "MatrixColumn_update dev cfg cv rng now c =
     (if reducedMotion dev then c
      else (let c1 = c\<lparr> mc_y := mc_y c + mc_speed c \<rparr> in
            if mc_y c1 > cv_height cv + 100 then MatrixColumn_reset dev cfg rng c1
            else (let c2 =
                        (if now > nextCharTime c1
                            \<and> real (length (characters c1)) < maxLength c1
                         then c1\<lparr> characters := characters c1 @
                                    [\<lparr> g_char = char_at (matrix_characters cfg)
                                         (utils_randomInt (rng 0) 0
                                            (int (length (matrix_characters cfg)) - 1)),
                                       g_age = 0 \<rparr>],
                                  nextCharTime := now + utils_random (rng 1) 100 300 \<rparr>
                         else c1)
                  in c2\<lparr> characters := age_loop (length (characters c2)) (characters c2) \<rparr>)))"

definition MatrixColumn_run ::
  "DEVICE_CONFIG \<Rightarrow> CONFIG \<Rightarrow> canvas \<Rightarrow> (real \<times> (nat \<Rightarrow> real)) list \<Rightarrow> MatrixColumn
     \<Rightarrow> MatrixColumn" where
  "MatrixColumn_run dev cfg cv ticks c =
     foldl (\<lambda>c tk. MatrixColumn_update dev cfg cv (snd tk) (fst tk) c) c ticks"

text \<open>A capacity that is a whole number (and not negative).\<close>

definition whole_cap :: "real \<Rightarrow> bool" where
  "whole_cap m = (0 \<le> m \<and> m = real_of_int \<lfloor>m\<rfloor>)"

text \<open>A particle whose trail is at its capacity of 4, as on a mobile device.\<close>

definition full_trail_particle :: Particle3D where
  "full_trail_particle =
     \<lparr> p3_x = 5, p3_y = 5, p3_z = 0, p3_vx = 1, p3_vy = 1, p3_vz = 0, p3_size = 1,
       p3_baseOpacity = 0.5, trail = [(1, 1, 0), (2, 2, 0), (3, 3, 0), (4, 4, 0)],
       maxTrailLength = 4, lastTrailTime = 0 \<rparr>"

text \<open>A column whose one glyph fills its capacity of 1.\<close>

definition full_column :: MatrixColumn where
  "full_column =
     \<lparr> mc_x = 10, mc_y = 0, mc_speed = 1, characters = [\<lparr> g_char = Some 48, g_age = 3 \<rparr>],
       maxLength = 1, mc_opacity = 0.5, nextCharTime = 0, fontSize = 13 \<rparr>"

text \<open>
  A ring buffer of capacity \<open>cap\<close>, as the specification words it: an insertion at
  capacity evicts the oldest element and stores the new one.
\<close>

definition ring_push :: "nat \<Rightarrow> 'a list \<Rightarrow> 'a \<Rightarrow> 'a list" where
  "ring_push cap xs v = (if length xs \<ge> cap then tl xs else xs) @ [v]"

text \<open>Concrete inputs: an 800 by 600 canvas and constant random draws.\<close>

definition canvas_800x600 :: canvas where
  "canvas_800x600 = \<lparr> cv_width = 800, cv_height = 600 \<rparr>"

definition rng_const :: "real \<Rightarrow> nat \<Rightarrow> real" where
  "rng_const v k = v"

text \<open>Random draws that give a fresh column the capacity \<open>5 + 10 * v\<close> on a desktop.\<close>

definition rng_cap :: "real \<Rightarrow> nat \<Rightarrow> real" where
  "rng_cap v k = (if k = 2 then v else 1 / 2)"

text \<open>\<open>n\<close> ticks one second apart, from \<open>now\<close> on, all random draws zero.\<close>

fun second_ticks :: "nat \<Rightarrow> real \<Rightarrow> (real \<times> (nat \<Rightarrow> real)) list" where
  "second_ticks 0 now = []"
| "second_ticks (Suc n) now = (now, rng_const 0) # second_ticks n (now + 1000)"

subsection \<open>HeroParticle\<close>

text \<open>
  A hero particle is referred to by its index in \<^verbatim>\<open>heroParticles\<close>; that index is what
  the spatial grid stores, and \<^verbatim>\<open>p2 === p1\<close> is equality of indices.
\<close>

record mouse =
  mouse_x :: real
  mouse_y :: real

record HeroParticle =
  hp_x :: real
  hp_y :: real
  baseX :: real
  baseY :: real
  hp_vx :: real
  hp_vy :: real
  hp_size :: real
  hp_opacity :: real
  hue :: real
  mouseForceX :: real
  mouseForceY :: real
  connections :: "nat list"

definition HeroParticle_reset :: "canvas \<Rightarrow> (nat \<Rightarrow> real) \<Rightarrow> HeroParticle \<Rightarrow> HeroParticle" where
  "HeroParticle_reset cv rng p =
     (let x = utils_random (rng 0) 0 (cv_width cv);
          y = utils_random (rng 1) 0 (cv_height cv) in
      p\<lparr> hp_x := x, hp_y := y, baseX := x, baseY := y,
         hp_vx := utils_random (rng 2) (- 0.5) 0.5,
         hp_vy := utils_random (rng 3) (- 0.5) 0.5,
         hp_size := utils_random (rng 4) 1.5 3,
         hp_opacity := utils_random (rng 5) 0.1 0.3,
         hue := utils_random (rng 6) 180 220,
         mouseForceX := 0, mouseForceY := 0, connections := [] \<rparr>)"

definition HeroParticle_new :: "canvas \<Rightarrow> (nat \<Rightarrow> real) \<Rightarrow> HeroParticle" where
  "HeroParticle_new cv rng =
     HeroParticle_reset cv rng
       \<lparr> hp_x = 0, hp_y = 0, baseX = 0, baseY = 0, hp_vx = 0, hp_vy = 0, hp_size = 0,
         hp_opacity = 0, hue = 0, mouseForceX = 0, mouseForceY = 0, connections = [] \<rparr>"

definition HeroParticle_update ::
  "DEVICE_CONFIG \<Rightarrow> CONFIG \<Rightarrow> canvas \<Rightarrow> mouse \<Rightarrow> HeroParticle \<Rightarrow> HeroParticle" where
  "HeroParticle_update dev cfg cv m p =
     (let p1 = p\<lparr> hp_x := hp_x p + hp_vx p * 0.3, hp_y := hp_y p + hp_vy p * 0.3 \<rparr>;
          p2 = (if \<not> mobile dev
                then (let dx = mouse_x m - hp_x p1;
                          dy = mouse_y m - hp_y p1;
                          distSq = dx * dx + dy * dy;
                          influenceSq = hero_mouseInfluence cfg * hero_mouseInfluence cfg;
                          pf = (if distSq < influenceSq \<and> distSq > 0
                                then (let force = (influenceSq - distSq) / influenceSq;
                                          dist = sqrt distSq in
                                      p1\<lparr> mouseForceX := - (dx / dist) * force * 0.015,
                                           mouseForceY := - (dy / dist) * force * 0.015 \<rparr>)
                                else p1\<lparr> mouseForceX := mouseForceX p1 * 0.95,
                                         mouseForceY := mouseForceY p1 * 0.95 \<rparr>)
                      in pf\<lparr> hp_x := hp_x pf + mouseForceX pf,
                             hp_y := hp_y pf + mouseForceY pf \<rparr>)
                else p1);
          p3 = p2\<lparr> hp_x := utils_lerp (hp_x p2) (baseX p2) 0.005,
                   hp_y := utils_lerp (hp_y p2) (baseY p2) 0.005 \<rparr>;
          p4 = (if hp_x p3 < - 10 then p3\<lparr> hp_x := cv_width cv + 10 \<rparr> else p3);
          p5 = (if hp_x p4 > cv_width cv + 10 then p4\<lparr> hp_x := - 10 \<rparr> else p4);
          p6 = (if hp_y p5 < - 10 then p5\<lparr> hp_y := cv_height cv + 10 \<rparr> else p5);
          p7 = (if hp_y p6 > cv_height cv + 10 then p6\<lparr> hp_y := - 10 \<rparr> else p6)
      in p7)"

text \<open>
  \<^verbatim>\<open>findConnections()\<close> of the particle at index \<open>this\<close>. \<open>sg\<close> is the particle's
  \<^verbatim>\<open>spatialGrid\<close> field, the grid object of \<^verbatim>\<open>HeroCanvas\<close> (or null).
\<close>

definition HeroParticle_findConnections ::
  "DEVICE_CONFIG \<Rightarrow> CONFIG \<Rightarrow> nat SpatialGrid option \<Rightarrow> HeroParticle list \<Rightarrow> nat \<Rightarrow> nat list"
  where
  "HeroParticle_findConnections dev cfg sg heroParticles this =
     (if mobile dev \<or> reducedMotion dev then []
      else (case (if performance_spatialOptimization cfg then sg else None) of
              Some g \<Rightarrow>
                SpatialGrid_getNearby g (hp_x (heroParticles ! this))
                  (hp_y (heroParticles ! this)) (hero_connectionDistance cfg)
            | None \<Rightarrow>
                filter (\<lambda>particle. particle \<noteq> this
                          \<and> utils_distanceSquared (hp_x (heroParticles ! this))
                                (hp_y (heroParticles ! this)) (hp_x (heroParticles ! particle))
                                (hp_y (heroParticles ! particle))
                              < hero_connectionDistance cfg * hero_connectionDistance cfg)
                  [0 ..< length heroParticles]))"

subsection \<open>HeroCanvas: grid rebuild and connection rendering\<close>

text \<open>The grid update of \<^verbatim>\<open>animate\<close>: \<^verbatim>\<open>clear()\<close>, then every particle inserted at its position.\<close>

definition rebuild_grid :: "nat SpatialGrid \<Rightarrow> HeroParticle list \<Rightarrow> nat SpatialGrid" where
  "rebuild_grid g heroParticles =
     foldl (\<lambda>g i. SpatialGrid_insert g i (hp_x (heroParticles ! i)) (hp_y (heroParticles ! i)))
       (SpatialGrid_clear g) [0 ..< length heroParticles]"

text \<open>A line drawn on the canvas: its end points and the opacity of its stroke style.\<close>

record stroke =
  from_x :: real
  from_y :: real
  to_x :: real
  to_y :: real
  stroke_opacity :: real

text \<open>
  The inner loop of \<^verbatim>\<open>drawConnections\<close> for the particle \<open>i\<close>, over the candidates
  still to visit, \<open>connectionCount\<close> lines being drawn so far. It returns the lines drawn.
\<close>

fun connect_loop ::
  "CONFIG \<Rightarrow> real \<Rightarrow> HeroParticle list \<Rightarrow> nat \<Rightarrow> nat \<Rightarrow> nat list \<Rightarrow> stroke list" where
  "connect_loop cfg quality heroParticles i connectionCount [] = []"
| "connect_loop cfg quality heroParticles i connectionCount (j # js) =
     (if \<not> connectionCount < hero_maxConnections cfg then []
      else if j = i then connect_loop cfg quality heroParticles i connectionCount js
      else (let p1 = heroParticles ! i; p2 = heroParticles ! j;
                connectionDistSq = hero_connectionDistance cfg * hero_connectionDistance cfg;
                distSq = utils_distanceSquared (hp_x p1) (hp_y p1) (hp_x p2) (hp_y p2) in
            if distSq < connectionDistSq
            then \<lparr> from_x = hp_x p1, from_y = hp_y p1, to_x = hp_x p2, to_y = hp_y p2,
                   stroke_opacity = utils_map distSq 0 connectionDistSq 0.2 0 * quality \<rparr>
                 # connect_loop cfg quality heroParticles i (connectionCount + 1) js
            else connect_loop cfg quality heroParticles i connectionCount js))"

text \<open>
  \<^verbatim>\<open>drawConnections()\<close>: for every particle the candidates come from the grid when
  \<^verbatim>\<open>HeroCanvas.spatialGrid\<close> is set, and are the particles after it in the array
  (\<^verbatim>\<open>heroParticles.slice(i + 1)\<close>) otherwise. The result is the lines drawn, in order.
\<close>

definition HeroCanvas_drawConnections ::
  "DEVICE_CONFIG \<Rightarrow> CONFIG \<Rightarrow> real \<Rightarrow> nat SpatialGrid option \<Rightarrow> HeroParticle list
     \<Rightarrow> stroke list" where
  "HeroCanvas_drawConnections dev cfg quality sg heroParticles =
     (if mobile dev \<or> reducedMotion dev then []
      else concat (map (\<lambda>i.
             connect_loop cfg quality heroParticles i 0
               (case sg of
                  Some g \<Rightarrow>
                    SpatialGrid_getNearby g (hp_x (heroParticles ! i)) (hp_y (heroParticles ! i))
                      (hero_connectionDistance cfg)
                | None \<Rightarrow> [i + 1 ..< length heroParticles]))
           [0 ..< length heroParticles]))"

text \<open>Concrete inputs: a particle at rest at a position, and a 300 by 200 surface.\<close>

definition hero_at :: "real \<Rightarrow> real \<Rightarrow> HeroParticle" where
  "hero_at x y =
     \<lparr> hp_x = x, hp_y = y, baseX = x, baseY = y, hp_vx = 0, hp_vy = 0, hp_size = 2,
       hp_opacity = 0.2, hue = 200, mouseForceX = 0, mouseForceY = 0, connections = [] \<rparr>"

definition grid_3x2 :: "nat SpatialGrid" where
  "grid_3x2 =
     \<lparr> sg_width = 300, sg_height = 200, cellSize = 100, cols = 3, rows = 2,
       grid = [[], [], [], [], [], []] \<rparr>"

definition stroke_ends :: "stroke \<Rightarrow> (real \<times> real) \<times> (real \<times> real)" where
  "stroke_ends s = ((from_x s, from_y s), (to_x s, to_y s))"

subsection \<open>The page: global state, platform and scenes\<close>

text \<open>
  A thrown JavaScript exception is a value; a callback registered with \<^verbatim>\<open>setTimeout\<close> is
  recorded by its name.
\<close>

datatype error = TypeError | DOMException | Thrown nat

datatype timer = InitMainSite | ResumeAnimations

text \<open>
  The globals of the script, the fields of its controller objects, and the platform's
  animation-frame queue: \<open>raf_pending\<close> holds the requested callbacks (handle and the
  scene whose \<^verbatim>\<open>animate\<close> it is), \<open>raf_next\<close> the next handle (handles are positive),
  \<open>raf_cancelled\<close> the handles passed to \<^verbatim>\<open>cancelAnimationFrame\<close>, in order. A canvas
  field is \<open>None\<close> when the element is missing.
\<close>

record world =
  device :: DEVICE_CONFIG
  config :: CONFIG
  introCompleted :: bool
  animationFrame :: "nat option"
  heroAnimationFrame :: "nat option"
  matrixAnimationFrame :: "nat option"
  particles3D :: "Particle3D list"
  heroParticles :: "HeroParticle list"
  fps :: FPSController
  PerformanceMonitor_fpsHistory :: "int list"
  IntroController_isActive :: bool
  IntroController_particlesCanvas :: "canvas option"
  HeroCanvas_isActive :: bool
  HeroCanvas_canvas :: "canvas option"
  HeroCanvas_mouse :: mouse
  HeroCanvas_spatialGrid :: "nat SpatialGrid option"
  MatrixCanvas_isActive :: bool
  MatrixCanvas_canvas :: "canvas option"
  MatrixCanvas_columns :: "MatrixColumn list"
  MemoryManager_lastCleanup :: real
  ErrorHandler_errors :: "error list"
  raf_pending :: "(nat \<times> scene) list"
  raf_next :: nat
  raf_cancelled :: "nat list"
  timeouts :: "(real \<times> timer) list"

text \<open>
  What one call of an \<^verbatim>\<open>animate\<close> function reads from outside: the frame timestamp,
  \<^verbatim>\<open>Date.now()\<close>, the random draws of each entity, and for each entity the exception its
  \<^verbatim>\<open>draw()\<close> meets in the drawing context, if any. The \<^verbatim>\<open>update\<close> methods touch the
  entity's own fields only and do not throw.
\<close>

record frame_env =
  env_now :: real
  env_date :: real
  env_rng :: "nat \<Rightarrow> nat \<Rightarrow> real"
  env_draw_fault :: "nat \<Rightarrow> error option"

definition requestAnimationFrame :: "scene \<Rightarrow> world \<Rightarrow> nat \<times> world" where
  "requestAnimationFrame sc w =
     (raf_next w,
      w\<lparr> raf_pending := raf_pending w @ [(raf_next w, sc)], raf_next := raf_next w + 1 \<rparr>)"

definition cancelAnimationFrame :: "nat \<Rightarrow> world \<Rightarrow> world" where
  "cancelAnimationFrame h w =
     w\<lparr> raf_pending := filter (\<lambda>c. fst c \<noteq> h) (raf_pending w),
        raf_cancelled := raf_cancelled w @ [h] \<rparr>"

text \<open>A handle variable is truthy when it is neither null nor 0.\<close>

fun truthy :: "nat option \<Rightarrow> bool" where
  "truthy None = False"
| "truthy (Some h) = (h \<noteq> 0)"

definition ErrorHandler_logError :: "error \<Rightarrow> world \<Rightarrow> world" where
  "ErrorHandler_logError e w =
     (let es = ErrorHandler_errors w @ [e] in
      w\<lparr> ErrorHandler_errors := (if length es > 10 then tl es else es) \<rparr>)"

text \<open>
  \<^verbatim>\<open>array.forEach(callback)\<close> over entities that are updated in place, the callback
  possibly throwing: the entities before the throwing one keep their updates, the
  throwing one is as it was when it threw, the rest is not visited. \<open>i\<close> is the index of
  the first entity of the list.
\<close>

fun forEach_until ::
  "(nat \<Rightarrow> 'e \<Rightarrow> 'e \<times> error option) \<Rightarrow> nat \<Rightarrow> 'e list \<Rightarrow> 'e list \<times> error option" where
  "forEach_until f i [] = ([], None)"
| "forEach_until f i (p # ps) =
     (case snd (f i p) of
        Some e \<Rightarrow> (fst (f i p) # ps, Some e)
      | None \<Rightarrow> (fst (f i p) # fst (forEach_until f (Suc i) ps),
                 snd (forEach_until f (Suc i) ps)))"

text \<open>
  The \<^verbatim>\<open>draw()\<close> methods return at once under reduced motion and use the drawing context
  otherwise; \<open>fault\<close> is the exception the context raises, if any.
\<close>

definition Particle3D_draw :: "DEVICE_CONFIG \<Rightarrow> error option \<Rightarrow> error option" where
  "Particle3D_draw dev fault = (if reducedMotion dev then None else fault)"

definition HeroParticle_draw :: "DEVICE_CONFIG \<Rightarrow> error option \<Rightarrow> error option" where
  "HeroParticle_draw dev fault = (if reducedMotion dev then None else fault)"

definition MatrixColumn_draw :: "DEVICE_CONFIG \<Rightarrow> error option \<Rightarrow> error option" where
  "MatrixColumn_draw dev fault = (if reducedMotion dev then None else fault)"

subsection \<open>HeroCanvas.animate and MatrixCanvas.animate\<close>

text \<open>
  The body of the \<^verbatim>\<open>try\<close> block of \<^verbatim>\<open>HeroCanvas.animate\<close> after the frame gate has
  accepted: the quality update, the grid rebuild, and the update-and-draw pass. It
  returns the state reached and the exception that ended it, if any. Clearing the canvas
  throws a TypeError when there is no canvas. The lines \<^verbatim>\<open>drawConnections\<close> draws are not
  part of the state, and it catches its own exceptions.
\<close>

definition HeroCanvas_frame :: "frame_env \<Rightarrow> world \<Rightarrow> world \<times> error option" where
  "HeroCanvas_frame env w =
     (let uq = updateQuality (PerformanceMonitor_fpsHistory w) (fps w, config w);
          w1 = w\<lparr> fps := fst uq, config := snd uq \<rparr> in
      case HeroCanvas_canvas w1 of
        None \<Rightarrow> (w1, Some TypeError)
      | Some cv \<Rightarrow>
          (let w2 = (case HeroCanvas_spatialGrid w1 of
                       None \<Rightarrow> w1
                     | Some g \<Rightarrow>
                         w1\<lparr> HeroCanvas_spatialGrid :=
                               Some (rebuild_grid g (heroParticles w1)) \<rparr>);
               fe = forEach_until
                      (\<lambda>i particle.
                         (HeroParticle_update (device w2) (config w2) cv (HeroCanvas_mouse w2)
                            particle,
                          HeroParticle_draw (device w2) (env_draw_fault env i)))
                      0 (heroParticles w2)
           in (w2\<lparr> heroParticles := fst fe \<rparr>, snd fe)))"

definition HeroCanvas_request :: "world \<Rightarrow> world" where
  "HeroCanvas_request w =
     (let q = requestAnimationFrame Hero w in (snd q)\<lparr> heroAnimationFrame := Some (fst q) \<rparr>)"

definition HeroCanvas_animate :: "frame_env \<Rightarrow> world \<Rightarrow> world" where
  "HeroCanvas_animate env w =
     (if \<not> HeroCanvas_isActive w then w
      else (let gate = shouldRender (fps w) (env_now env);
                w0 = w\<lparr> fps := snd gate \<rparr> in
            if \<not> fst gate then HeroCanvas_request w0
            else (case snd (HeroCanvas_frame env w0) of
                    Some e \<Rightarrow>
                      (ErrorHandler_logError e (fst (HeroCanvas_frame env w0)))
                        \<lparr> HeroCanvas_isActive := False \<rparr>
                  | None \<Rightarrow> HeroCanvas_request (fst (HeroCanvas_frame env w0)))))"

definition MatrixCanvas_frame :: "frame_env \<Rightarrow> world \<Rightarrow> world \<times> error option" where
  "MatrixCanvas_frame env w =
     (case MatrixCanvas_canvas w of
        None \<Rightarrow> (w, Some TypeError)
      | Some cv \<Rightarrow>
          (let fe = forEach_until
                      (\<lambda>i column.
                         (MatrixColumn_update (device w) (config w) cv (env_rng env i)
                            (env_date env) column,
                          MatrixColumn_draw (device w) (env_draw_fault env i)))
                      0 (MatrixCanvas_columns w)
           in (w\<lparr> MatrixCanvas_columns := fst fe \<rparr>, snd fe)))"

definition MatrixCanvas_request :: "world \<Rightarrow> world" where
  "MatrixCanvas_request w =
     (let q = requestAnimationFrame Matrix w in (snd q)\<lparr> matrixAnimationFrame := Some (fst q) \<rparr>)"

definition MatrixCanvas_animate :: "frame_env \<Rightarrow> world \<Rightarrow> world" where
  "MatrixCanvas_animate env w =
     (if \<not> MatrixCanvas_isActive w then w
      else (let gate = shouldRender (fps w) (env_now env);
                w0 = w\<lparr> fps := snd gate \<rparr> in
            if \<not> fst gate then MatrixCanvas_request w0
            else (case snd (MatrixCanvas_frame env w0) of
                    Some e \<Rightarrow>
                      (ErrorHandler_logError e (fst (MatrixCanvas_frame env w0)))
                        \<lparr> MatrixCanvas_isActive := False \<rparr>
                  | None \<Rightarrow> MatrixCanvas_request (fst (MatrixCanvas_frame env w0)))))"

subsection \<open>IntroController.animate and complete\<close>

definition IntroController_complete :: "world \<Rightarrow> world" where
  "IntroController_complete w =
     (let w1 = w\<lparr> IntroController_isActive := False, introCompleted := True \<rparr>;
          w2 = (case animationFrame w1 of
                  None \<Rightarrow> w1
                | Some h \<Rightarrow>
                    if h \<noteq> 0 then (cancelAnimationFrame h w1)\<lparr> animationFrame := None \<rparr>
                    else w1)
      in w2\<lparr> timeouts := timeouts w2 @ [(1000, InitMainSite)] \<rparr>)"

definition IntroController_frame :: "frame_env \<Rightarrow> world \<Rightarrow> world \<times> error option" where
  "IntroController_frame env w =
     (case IntroController_particlesCanvas w of
        None \<Rightarrow> (w, Some TypeError)
      | Some cv \<Rightarrow>
          (let fe = forEach_until
                      (\<lambda>i particle.
                         (Particle3D_update cv (env_rng env i) (env_now env) particle,
                          Particle3D_draw (device w) (env_draw_fault env i)))
                      0 (particles3D w)
           in (w\<lparr> particles3D := fst fe \<rparr>, snd fe)))"

definition IntroController_request :: "world \<Rightarrow> world" where
  "IntroController_request w =
     (let q = requestAnimationFrame Intro w in (snd q)\<lparr> animationFrame := Some (fst q) \<rparr>)"

definition IntroController_animate :: "frame_env \<Rightarrow> world \<Rightarrow> world" where
  "IntroController_animate env w =
     (if \<not> IntroController_isActive w \<or> introCompleted w then w
      else (let gate = shouldRender (fps w) (env_now env);
                w0 = w\<lparr> fps := snd gate \<rparr> in
            if \<not> fst gate then IntroController_request w0
            else (case snd (IntroController_frame env w0) of
                    Some e \<Rightarrow> IntroController_complete (fst (IntroController_frame env w0))
                  | None \<Rightarrow> IntroController_request (fst (IntroController_frame env w0)))))"

subsection \<open>MemoryManager\<close>

text \<open>
  \<^verbatim>\<open>array.slice(start)\<close>: the start index is truncated towards zero, a negative one
  counts from the end.
\<close>

definition js_trunc :: "real \<Rightarrow> int" where
  "js_trunc r = (if r < 0 then \<lceil>r\<rceil> else \<lfloor>r\<rfloor>)"

definition js_slice :: "real \<Rightarrow> 'a list \<Rightarrow> 'a list" where
  "js_slice start xs =
     (let len = int (length xs);
          k = (if js_trunc start < 0 then max (len + js_trunc start) 0
               else min (js_trunc start) len)
      in drop (nat k) xs)"

text \<open>
  \<^verbatim>\<open>cleanup()\<close>, \<open>now\<close> being \<^verbatim>\<open>performance.now()\<close>. The notification part belongs to the
  page's chrome and is left out.
\<close>

definition MemoryManager_cleanup :: "real \<Rightarrow> world \<Rightarrow> world" where
  "MemoryManager_cleanup now w =
     (if now - MemoryManager_lastCleanup w < 5000 then w
      else w\<lparr> particles3D :=
                 map (\<lambda>particle.
                        if length (trail particle) > maxTrailLength particle
                        then particle\<lparr> trail :=
                               js_slice (- real (maxTrailLength particle)) (trail particle) \<rparr>
                        else particle)
                   (particles3D w),
               MatrixCanvas_columns :=
                 map (\<lambda>column.
                        if real (length (characters column)) > maxLength column
                        then column\<lparr> characters :=
                               js_slice (- maxLength column) (characters column) \<rparr>
                        else column)
                   (MatrixCanvas_columns w),
               MemoryManager_lastCleanup := now \<rparr>)"

definition MemoryManager_forceCleanup :: "real \<Rightarrow> world \<Rightarrow> world" where
  "MemoryManager_forceCleanup now w =
     (let w1 = MemoryManager_cleanup now w in
      w1\<lparr> particles3D := map (\<lambda>particle. particle\<lparr> trail := [] \<rparr>) (particles3D w1),
          MatrixCanvas_columns :=
            map (\<lambda>column. column\<lparr> characters := [] \<rparr>) (MatrixCanvas_columns w1) \<rparr>)"

definition MemoryManager_pauseAnimations :: "world \<Rightarrow> world" where
  "MemoryManager_pauseAnimations w =
     (let w1 = w\<lparr> HeroCanvas_isActive := False, MatrixCanvas_isActive := False,
                  IntroController_isActive := False \<rparr>;
          w2 = (if truthy (heroAnimationFrame w1)
                then (case heroAnimationFrame w1 of
                        Some h \<Rightarrow> (cancelAnimationFrame h w1)\<lparr> heroAnimationFrame := None \<rparr>
                      | None \<Rightarrow> w1)
                else w1);
          w3 = (if truthy (matrixAnimationFrame w2)
                then (case matrixAnimationFrame w2 of
                        Some h \<Rightarrow> (cancelAnimationFrame h w2)\<lparr> matrixAnimationFrame := None \<rparr>
                      | None \<Rightarrow> w2)
                else w2);
          w4 = (if truthy (animationFrame w3)
                then (case animationFrame w3 of
                        Some h \<Rightarrow> (cancelAnimationFrame h w3)\<lparr> animationFrame := None \<rparr>
                      | None \<Rightarrow> w3)
                else w3)
      in w4)"

text \<open>
  \<^verbatim>\<open>resumeAnimations()\<close> only schedules its body, 100 ms later;
  \<open>MemoryManager_resume_callback\<close> is that body. \<open>env sc\<close> is what the \<^verbatim>\<open>animate\<close> call
  of scene \<open>sc\<close> reads.
\<close>

definition MemoryManager_resumeAnimations :: "world \<Rightarrow> world" where
  "MemoryManager_resumeAnimations w = w\<lparr> timeouts := timeouts w @ [(100, ResumeAnimations)] \<rparr>"

definition MemoryManager_resume_callback :: "(scene \<Rightarrow> frame_env) \<Rightarrow> world \<Rightarrow> world" where
  "MemoryManager_resume_callback env w =
     (if introCompleted w
      then (let w1 = w\<lparr> HeroCanvas_isActive := True, MatrixCanvas_isActive := True \<rparr>;
                w2 = (if HeroCanvas_canvas w1 \<noteq> None then HeroCanvas_animate (env Hero) w1
                      else w1);
                w3 = (if MatrixCanvas_canvas w2 \<noteq> None
                      then MatrixCanvas_animate (env Matrix) w2 else w2)
            in w3)
      else (let w1 = w\<lparr> IntroController_isActive := True \<rparr> in
            if IntroController_particlesCanvas w1 \<noteq> None
            then IntroController_animate (env Intro) w1 else w1))"

text \<open>
  The animation-frame recovery of \<^verbatim>\<open>ErrorHandler.attemptRecovery\<close>: the body of its
  500 ms timeout. It restarts the loop of a scene only when the scene is active and its
  handle variable is not set.
\<close>

definition ErrorHandler_recovery_callback :: "(scene \<Rightarrow> frame_env) \<Rightarrow> world \<Rightarrow> world" where
  "ErrorHandler_recovery_callback env w =
     (let w1 = (if IntroController_isActive w \<and> \<not> truthy (animationFrame w)
                then IntroController_animate (env Intro) w else w);
          w2 = (if HeroCanvas_isActive w1 \<and> \<not> truthy (heroAnimationFrame w1)
                then HeroCanvas_animate (env Hero) w1 else w1);
          w3 = (if MatrixCanvas_isActive w2 \<and> \<not> truthy (matrixAnimationFrame w2)
                then MatrixCanvas_animate (env Matrix) w2 else w2)
      in w3)"

text \<open>How many animation loops of a scene are alive: its pending frame requests.\<close>

definition loops_of :: "scene \<Rightarrow> world \<Rightarrow> nat" where
  "loops_of sc w = length (filter (\<lambda>c. snd c = sc) (raf_pending w))"

text \<open>
  Concrete inputs. A desktop page after the intro: both main scenes active, each with
  one frame request pending; two hero particles 50 apart drifting to the right, on a
  300 by 200 hero surface with its grid; one intro particle with two trail samples left
  over; one matrix column holding a glyph.
\<close>

definition canvas_300x200 :: canvas where
  "canvas_300x200 = \<lparr> cv_width = 300, cv_height = 200 \<rparr>"

definition hero_drifting :: "real \<Rightarrow> real \<Rightarrow> HeroParticle" where
  "hero_drifting x y = (hero_at x y)\<lparr> hp_vx := 1 \<rparr>"

definition page1 :: world where
  "page1 =
     \<lparr> device = desktop_device,
       config = CONFIG_init desktop_device,
       introCompleted = True,
       animationFrame = None,
       heroAnimationFrame = Some 1,
       matrixAnimationFrame = Some 2,
       particles3D =
         [\<lparr> p3_x = 3, p3_y = 3, p3_z = 0, p3_vx = 1, p3_vy = 1, p3_vz = 0, p3_size = 1,
            p3_baseOpacity = 0.5, trail = [(1, 1, 0), (2, 2, 0)], maxTrailLength = 8,
            lastTrailTime = 200 \<rparr>],
       heroParticles = [hero_drifting 100 100, hero_drifting 150 100],
       fps = FPSController_init (CONFIG_init desktop_device),
       PerformanceMonitor_fpsHistory = [60],
       IntroController_isActive = False,
       IntroController_particlesCanvas = Some canvas_800x600,
       HeroCanvas_isActive = True,
       HeroCanvas_canvas = Some canvas_300x200,
       HeroCanvas_mouse = \<lparr> mouse_x = 0, mouse_y = 0 \<rparr>,
       HeroCanvas_spatialGrid = Some grid_3x2,
       MatrixCanvas_isActive = True,
       MatrixCanvas_canvas = Some canvas_800x600,
       MatrixCanvas_columns =
         [\<lparr> mc_x = 10, mc_y = 0, mc_speed = 1, characters = [\<lparr> g_char = Some 48, g_age = 3 \<rparr>],
            maxLength = 10, mc_opacity = 0.5, nextCharTime = 0, fontSize = 13 \<rparr>],
       MemoryManager_lastCleanup = 0,
       ErrorHandler_errors = [],
       raf_pending = [(1, Hero), (2, Matrix)],
       raf_next = 3,
       raf_cancelled = [],
       timeouts = [] \<rparr>"

text \<open>
  The same page with buffers over their caps: an intro particle with nine trail samples
  (cap 8), and a matrix column of capacity 5.5 holding six glyphs.
\<close>

definition page2 :: world where
  "page2 =
     page1\<lparr> particles3D :=
               [\<lparr> p3_x = 10, p3_y = 10, p3_z = 0, p3_vx = 1, p3_vy = 1, p3_vz = 0, p3_size = 1,
                  p3_baseOpacity = 0.5,
                  trail = [(1, 1, 0), (2, 2, 0), (3, 3, 0), (4, 4, 0), (5, 5, 0), (6, 6, 0),
                           (7, 7, 0), (8, 8, 0), (9, 9, 0)],
                  maxTrailLength = 8, lastTrailTime = 900 \<rparr>],
            MatrixCanvas_columns :=
               [\<lparr> mc_x = 10, mc_y = - 116, mc_speed = 3 / 2,
                  characters =
                    [\<lparr> g_char = Some 48, g_age = 6 \<rparr>, \<lparr> g_char = Some 48, g_age = 5 \<rparr>,
                     \<lparr> g_char = Some 48, g_age = 4 \<rparr>, \<lparr> g_char = Some 48, g_age = 3 \<rparr>,
                     \<lparr> g_char = Some 48, g_age = 2 \<rparr>, \<lparr> g_char = Some 48, g_age = 1 \<rparr>],
                  maxLength = 11 / 2, mc_opacity = 9 / 20, nextCharTime = 6100,
                  fontSize = 13 \<rparr>] \<rparr>"

text \<open>A frame at time \<open>t\<close> in which no draw throws, and one in which the draw of entity 0 does.\<close>

definition calm_env :: "real \<Rightarrow> frame_env" where
  "calm_env t =
     \<lparr> env_now = t, env_date = t, env_rng = (\<lambda>i k. 0), env_draw_fault = (\<lambda>i. None) \<rparr>"


section \<open>Verification\<close>

subsection \<open>Quality level stays in range\<close>

lemma updateQuality_bounds:
  assumes "0.3 \<le> qualityLevel (fst s)" "qualityLevel (fst s) \<le> 1"
  shows "0.3 \<le> qualityLevel (fst (updateQuality h s))
         \<and> qualityLevel (fst (updateQuality h s)) \<le> 1"
  using assms by (auto simp: updateQuality_def Let_def)

lemma fps_step_bounds:
  assumes "0.3 \<le> qualityLevel (fst s)" "qualityLevel (fst s) \<le> 1"
  shows "0.3 \<le> qualityLevel (fst (fps_step s c)) \<and> qualityLevel (fst (fps_step s c)) \<le> 1"
proof (cases c)
  case (ShouldRender t)
  then show ?thesis using assms by (simp add: shouldRender_def)
next
  case (UpdateQuality h)
  then show ?thesis using updateQuality_bounds[OF assms] by simp
qed

lemma fps_run_bounds:
  "0.3 \<le> qualityLevel (fst s) \<Longrightarrow> qualityLevel (fst s) \<le> 1 \<Longrightarrow>
   0.3 \<le> qualityLevel (fst (fps_run calls s)) \<and> qualityLevel (fst (fps_run calls s)) \<le> 1"
  unfolding fps_run_def
proof (induction calls arbitrary: s)
  case Nil
  then show ?case by simp
next
  case (Cons c cs)
  from fps_step_bounds[OF Cons.prems] Cons.IH[of "fps_step s c"]
  show ?case by simp
qed

text \<open>
  Claim C3. Start from the initial controller (quality 1.0) with any frame count \<open>n\<close>
  and any configuration, and let the scenes make any finite sequence of calls: gate
  polls at any timestamps and \<^verbatim>\<open>updateQuality()\<close> calls with any FPS histories. The
  quality level is then at least 0.3 and at most 1.0.
\<close>

theorem quality_in_range:
  "0.3 \<le> qualityLevel
            (fst (fps_run calls ((FPSController_init cfg0)\<lparr> frameCount := n \<rparr>, cfg)))
   \<and> qualityLevel
        (fst (fps_run calls ((FPSController_init cfg0)\<lparr> frameCount := n \<rparr>, cfg))) \<le> 1"
  by (rule fps_run_bounds) (simp_all add: FPSController_init_def)

lemmas model_defs =
  fps_run_def hero_accepted_frame_def updateQuality_def shouldRender_def
  FPSController_init_def CONFIG_init_def desktop_device_def Let_def getAverageFPS_def
  Math_round_def adaptPerformance_def getParticleCount_def getAnimationSpeed_def

theorem quality_in_range_witness:
  "0.3 \<le> qualityLevel
            (fst (fps_run [UpdateQuality [20, 20]]
                   ((FPSController_init (CONFIG_init desktop_device))\<lparr> frameCount := 59 \<rparr>,
                    CONFIG_init desktop_device)))
   \<and> qualityLevel
        (fst (fps_run [UpdateQuality [20, 20]]
               ((FPSController_init (CONFIG_init desktop_device))\<lparr> frameCount := 59 \<rparr>,
                CONFIG_init desktop_device))) = 0.9"
  using quality_in_range [where calls = "[UpdateQuality [20, 20]]" and n = 59
      and ?cfg0.0 = "CONFIG_init desktop_device" and cfg = "CONFIG_init desktop_device"]
  by (simp add: model_defs)

subsection \<open>The frame gate\<close>

lemma shouldRender_frameInterval [simp]:
  "frameInterval (snd (shouldRender fc t)) = frameInterval fc"
  by (simp add: shouldRender_def)






subsection \<open>Quality re-evaluation\<close>

lemma hero_frames_numeral:
  "hero_frames (numeral k) t dt h =
     hero_accepted_frame t h @ hero_frames (pred_numeral k) (t + dt) dt h"
  by (simp add: numeral_eq_Suc)

text \<open>
  Claim C6 at its scenario: a desktop controller (target 60 FPS, quality 1.0, frame
  count 0), sixty accepted hero frames 17 ms apart, the monitor's average at 20 FPS all
  along. Both \<^verbatim>\<open>shouldRender\<close> and \<^verbatim>\<open>updateQuality\<close> increment \<^verbatim>\<open>frameCount\<close>, so it
  stands at 120 and the re-evaluation has fired at the 30th and at the 60th frame: the
  quality is 0.81, not 0.9, and the hero particle count went 12, 10, 8.
\<close>

theorem updateQuality_sixty_hero_frames:
  "fps_run (hero_frames 60 17 17 [20, 20, 20, 20, 20, 20])
     (FPSController_init (CONFIG_init desktop_device), CONFIG_init desktop_device)
   = (\<lparr> targetFPS = 60, frameInterval = 50 / 3, lastFrameTime = 1020, frameCount = 120,
        qualityLevel = 81 / 100 \<rparr>,
      (CONFIG_init desktop_device)
        \<lparr> hero_particleCount := 8, intro_particleCount := 10, matrix_columns := 14 \<rparr>)"
  by (simp add: model_defs hero_frames_numeral)

subsection \<open>SpatialGrid queries\<close>

lemma SpatialGrid_new_ok:
  "SpatialGrid_new w h cs = Some g \<Longrightarrow> 0 < cs \<Longrightarrow> 0 \<le> w \<Longrightarrow> 0 \<le> h \<Longrightarrow> SpatialGrid_ok g"
proof -
  assume a: "SpatialGrid_new w h cs = Some g" "0 < cs" "0 \<le> w" "0 \<le> h"
  then have "0 \<le> w / cs" "0 \<le> h / cs" by simp_all
  then have "0 \<le> \<lceil>w / cs\<rceil>" "0 \<le> \<lceil>h / cs\<rceil>" by linarith+
  with a show ?thesis
    by (auto simp: SpatialGrid_new_def SpatialGrid_ok_def Let_def split: if_splits)
qed

lemma SpatialGrid_clear_ok: "SpatialGrid_ok g \<Longrightarrow> SpatialGrid_ok (SpatialGrid_clear g)"
  by (simp add: SpatialGrid_ok_def SpatialGrid_clear_def)

lemma SpatialGrid_insert_ok: "SpatialGrid_ok g \<Longrightarrow> SpatialGrid_ok (SpatialGrid_insert g p x y)"
  by (simp add: SpatialGrid_ok_def SpatialGrid_insert_def Let_def)

lemma SpatialGrid_insert_fields [simp]:
  "cellSize (SpatialGrid_insert g p x y) = cellSize g"
  "cols (SpatialGrid_insert g p x y) = cols g"
  "rows (SpatialGrid_insert g p x y) = rows g"
  by (simp_all add: SpatialGrid_insert_def Let_def)

lemma in_bounds_insert [simp]: "in_bounds (SpatialGrid_insert g p x y) u v = in_bounds g u v"
  by (simp add: in_bounds_def)

lemma insert_all_fields [simp]:
  "cellSize (insert_all ps g) = cellSize g"
  "cols (insert_all ps g) = cols g"
  "rows (insert_all ps g) = rows g"
  unfolding insert_all_def by (induction ps arbitrary: g) simp_all

lemma insert_all_ok: "SpatialGrid_ok g \<Longrightarrow> SpatialGrid_ok (insert_all ps g)"
  unfolding insert_all_def by (induction ps arbitrary: g) (simp_all add: SpatialGrid_insert_ok)

lemma cell_index_less:
  assumes "0 \<le> r" "r < R" "0 \<le> c" "c < C"
  shows "nat (r * C + c) < nat (C * R)"
proof -
  have "r * C + c < (r + 1) * C" using assms by (simp add: algebra_simps)
  also have "\<dots> \<le> R * C" using assms by (intro mult_right_mono) simp_all
  finally show ?thesis using assms by (simp add: mult.commute)
qed

lemma cell_index_inj:
  assumes "0 \<le> r" "0 \<le> c" "c < C" "0 \<le> r'" "0 \<le> c'" "c' < C"
    and eq: "nat (r * C + c) = nat (r' * C + c')"
  shows "r = r' \<and> c = c'"
proof -
  have e: "r * C + c = r' * C + c'" using assms by (simp add: nat_eq_iff)
  have "(r * C + c) div C = r" "(r' * C + c') div C = r'" using assms by simp_all
  with e have "r = r'" by simp
  with e show ?thesis by simp
qed

text \<open>An insertion outside the grid changes nothing; inside, it appends to one cell.\<close>

lemma insert_out_of_bounds: "\<not> in_bounds g x y \<Longrightarrow> SpatialGrid_insert g p x y = g"
  by (auto simp: SpatialGrid_insert_def in_bounds_def Let_def)

lemma cell_at_insert:
  assumes ok: "SpatialGrid_ok g" and rc: "0 \<le> r" "r < rows g" "0 \<le> c" "c < cols g"
  shows "cell_at (SpatialGrid_insert g p x y) (r, c) =
           (if in_bounds g x y \<and> \<lfloor>y / cellSize g\<rfloor> = r \<and> \<lfloor>x / cellSize g\<rfloor> = c
            then cell_at g (r, c) @ [p] else cell_at g (r, c))"
proof (cases "in_bounds g x y")
  case False
  then show ?thesis by (simp add: insert_out_of_bounds)
next
  case True
  let ?r = "\<lfloor>y / cellSize g\<rfloor>" and ?c = "\<lfloor>x / cellSize g\<rfloor>"
  from True have b: "0 \<le> ?r" "?r < rows g" "0 \<le> ?c" "?c < cols g"
    by (simp_all add: in_bounds_def)
  have lt: "nat (?r * cols g + ?c) < length (grid g)"
    using cell_index_less[OF b] ok by (simp add: SpatialGrid_ok_def)
  have cs: "cellSize g \<noteq> 0" using ok by (simp add: SpatialGrid_ok_def)
  have g': "grid (SpatialGrid_insert g p x y) =
      (grid g)[nat (?r * cols g + ?c) := grid g ! nat (?r * cols g + ?c) @ [p]]"
    using b cs by (simp add: SpatialGrid_insert_def Let_def)
  show ?thesis
  proof (cases "?r = r \<and> ?c = c")
    case same: True
    with True rc lt g' show ?thesis by (simp add: cell_at_def)
  next
    case False
    then have "nat (?r * cols g + ?c) \<noteq> nat (r * cols g + c)"
      using cell_index_inj[of ?r ?c "cols g" r c] b rc by blast
    with False True rc g' show ?thesis by (auto simp: cell_at_def)
  qed
qed

lemma cell_at_outside [simp]:
  "\<not> (0 \<le> r \<and> r < rows g \<and> 0 \<le> c \<and> c < cols g) \<Longrightarrow> cell_at g (r, c) = []"
  by (auto simp: cell_at_def)

lemma cell_at_insert_mono:
  assumes "SpatialGrid_ok g"
  shows "set (cell_at g rc) \<subseteq> set (cell_at (SpatialGrid_insert g p x y) rc)"
proof (cases "0 \<le> fst rc \<and> fst rc < rows g \<and> 0 \<le> snd rc \<and> snd rc < cols g")
  case True
  then show ?thesis using cell_at_insert[OF assms, of "fst rc" "snd rc" p x y] by auto
next
  case False
  then show ?thesis by (auto simp: cell_at_def)
qed

lemma cell_at_insert_all_mono:
  "SpatialGrid_ok g \<Longrightarrow> set (cell_at g rc) \<subseteq> set (cell_at (insert_all ps g) rc)"
proof (induction ps arbitrary: g)
  case Nil
  then show ?case by (simp add: insert_all_def)
next
  case (Cons q ps)
  let ?g = "SpatialGrid_insert g (fst q) (fst (snd q)) (snd (snd q))"
  have "set (cell_at g rc) \<subseteq> set (cell_at ?g rc)" by (rule cell_at_insert_mono[OF Cons.prems])
  also have "\<dots> \<subseteq> set (cell_at (insert_all ps ?g) rc)"
    by (rule Cons.IH) (rule SpatialGrid_insert_ok[OF Cons.prems])
  finally show ?case by (simp add: insert_all_def)
qed

text \<open>Every entity inserted at a position inside the grid is stored in that position's cell.\<close>

lemma inserted_in_cell:
  "SpatialGrid_ok g \<Longrightarrow> (e, x, y) \<in> set ps \<Longrightarrow> in_bounds g x y \<Longrightarrow>
   e \<in> set (cell_at (insert_all ps g) (\<lfloor>y / cellSize g\<rfloor>, \<lfloor>x / cellSize g\<rfloor>))"
proof (induction ps arbitrary: g)
  case Nil
  then show ?case by simp
next
  case (Cons q ps)
  let ?g = "SpatialGrid_insert g (fst q) (fst (snd q)) (snd (snd q))"
  have ok': "SpatialGrid_ok ?g" by (rule SpatialGrid_insert_ok[OF Cons.prems(1)])
  have unfold: "insert_all (q # ps) g = insert_all ps ?g" by (simp add: insert_all_def)
  from Cons.prems(2) have "q = (e, x, y) \<or> (e, x, y) \<in> set ps" by auto
  then show ?case
  proof
    assume q: "q = (e, x, y)"
    from Cons.prems(3) have b: "0 \<le> \<lfloor>y / cellSize g\<rfloor>" "\<lfloor>y / cellSize g\<rfloor> < rows g"
        "0 \<le> \<lfloor>x / cellSize g\<rfloor>" "\<lfloor>x / cellSize g\<rfloor> < cols g"
      by (simp_all add: in_bounds_def)
    have "e \<in> set (cell_at ?g (\<lfloor>y / cellSize g\<rfloor>, \<lfloor>x / cellSize g\<rfloor>))"
      using cell_at_insert[OF Cons.prems(1) b, of e x y] Cons.prems(3) q by simp
    with cell_at_insert_all_mono[OF ok', of "(\<lfloor>y / cellSize g\<rfloor>, \<lfloor>x / cellSize g\<rfloor>)" ps]
    show ?thesis unfolding unfold by auto
  next
    assume "(e, x, y) \<in> set ps"
    from Cons.IH[OF ok' this] Cons.prems(3) show ?thesis unfolding unfold by simp
  qed
qed

text \<open>The loops of \<^verbatim>\<open>getNearby\<close> concatenate the cells of the block in order.\<close>

lemma foldl_append_filtered:
  "foldl (\<lambda>acc c. if P c then acc @ f c else acc) acc cs = acc @ concat (map f (filter P cs))"
  by (induction cs arbitrary: acc) simp_all

lemma foldl_append_concat:
  "foldl (\<lambda>acc r. acc @ h r) acc rs = acc @ concat (map h rs)"
  by (induction rs arbitrary: acc) simp_all

lemma concat_product_cells:
  "concat (map f (List.product rs cs)) = concat (map (\<lambda>r. concat (map (\<lambda>c. f (r, c)) cs)) rs)"
  by (induction rs) (simp_all add: comp_def)

lemma getNearby_block:
  assumes "cellSize g \<noteq> 0"
  shows "SpatialGrid_getNearby g x y radius = concat (map (cell_at g) (block_cells g x y radius))"
proof -
  have inner: "\<And>r acc cs. foldl (\<lambda>nearby c.
                    if r \<ge> 0 \<and> r < rows g \<and> c \<ge> 0 \<and> c < cols g
                    then nearby @ grid g ! nat (r * cols g + c)
                    else nearby) acc cs = acc @ concat (map (\<lambda>c. cell_at g (r, c)) cs)"
  proof -
    fix r acc cs
    show "foldl (\<lambda>nearby c.
                    if r \<ge> 0 \<and> r < rows g \<and> c \<ge> 0 \<and> c < cols g
                    then nearby @ grid g ! nat (r * cols g + c)
                    else nearby) acc cs = acc @ concat (map (\<lambda>c. cell_at g (r, c)) cs)"
      by (induction cs arbitrary: acc) (simp_all add: cell_at_def)
  qed
  show ?thesis
    using assms
    by (simp add: SpatialGrid_getNearby_def Let_def inner foldl_append_concat
        block_cells_def concat_product_cells)
qed

lemma length_block_cells:
  assumes "0 \<le> \<lceil>radius / cellSize g\<rceil>"
  shows "int (length (block_cells g x y radius)) = (2 * \<lceil>radius / cellSize g\<rceil> + 1)\<^sup>2"
  using assms by (simp add: block_cells_def power2_eq_square nat_mult_distrib)

text \<open>A position within distance \<open>r\<close> of the query point has its cell in the block.\<close>

lemma floor_near:
  fixes x q r cs :: real
  assumes "0 < cs" "\<bar>x - q\<bar> \<le> r"
  shows "\<lfloor>q / cs\<rfloor> - \<lceil>r / cs\<rceil> \<le> \<lfloor>x / cs\<rfloor> \<and> \<lfloor>x / cs\<rfloor> \<le> \<lfloor>q / cs\<rfloor> + \<lceil>r / cs\<rceil>"
proof
  have "q - r \<le> x" using assms by linarith
  then have "(q - r) / cs \<le> x / cs" using assms(1) by (simp add: divide_right_mono)
  then have "q / cs - r / cs \<le> x / cs" by (simp add: diff_divide_distrib)
  moreover have "r / cs \<le> of_int \<lceil>r / cs\<rceil>" by simp
  ultimately have "q / cs - of_int \<lceil>r / cs\<rceil> \<le> x / cs" by linarith
  then have "\<lfloor>q / cs - of_int \<lceil>r / cs\<rceil>\<rfloor> \<le> \<lfloor>x / cs\<rfloor>" by (rule floor_mono)
  then show "\<lfloor>q / cs\<rfloor> - \<lceil>r / cs\<rceil> \<le> \<lfloor>x / cs\<rfloor>" by simp
next
  have "x \<le> q + r" using assms by linarith
  then have "x / cs \<le> (q + r) / cs" using assms(1) by (simp add: divide_right_mono)
  then have "x / cs \<le> q / cs + r / cs" by (simp add: add_divide_distrib)
  moreover have "r / cs \<le> of_int \<lceil>r / cs\<rceil>" by simp
  ultimately have "x / cs \<le> q / cs + of_int \<lceil>r / cs\<rceil>" by linarith
  then have "\<lfloor>x / cs\<rfloor> \<le> \<lfloor>q / cs + of_int \<lceil>r / cs\<rceil>\<rfloor>" by (rule floor_mono)
  then show "\<lfloor>x / cs\<rfloor> \<le> \<lfloor>q / cs\<rfloor> + \<lceil>r / cs\<rceil>" by simp
qed

lemma distance_bounds_coordinates:
  assumes "utils_distance qx qy x y \<le> r"
  shows "\<bar>x - qx\<bar> \<le> r \<and> \<bar>y - qy\<bar> \<le> r"
proof -
  have "\<bar>x - qx\<bar> = sqrt ((x - qx) * (x - qx))" by simp
  also have "\<dots> \<le> sqrt ((x - qx) * (x - qx) + (y - qy) * (y - qy))"
    by (rule real_sqrt_le_mono) simp
  finally have 1: "\<bar>x - qx\<bar> \<le> utils_distance qx qy x y" by (simp add: utils_distance_def Let_def)
  have "\<bar>y - qy\<bar> = sqrt ((y - qy) * (y - qy))" by simp
  also have "\<dots> \<le> sqrt ((x - qx) * (x - qx) + (y - qy) * (y - qy))"
    by (rule real_sqrt_le_mono) simp
  finally have 2: "\<bar>y - qy\<bar> \<le> utils_distance qx qy x y" by (simp add: utils_distance_def Let_def)
  from 1 2 assms show ?thesis by linarith
qed

lemma getNearby_superset:
  assumes ok: "SpatialGrid_ok g" and mem: "(e, x, y) \<in> set ps" and inb: "in_bounds g x y"
    and near: "utils_distance qx qy x y \<le> r"
  shows "e \<in> set (SpatialGrid_getNearby (insert_all ps g) qx qy r)"
proof -
  let ?g = "insert_all ps g"
  have cs: "0 < cellSize g" using ok by (simp add: SpatialGrid_ok_def)
  from distance_bounds_coordinates[OF near] have d: "\<bar>x - qx\<bar> \<le> r" "\<bar>y - qy\<bar> \<le> r" by simp_all
  let ?rc = "(\<lfloor>y / cellSize g\<rfloor>, \<lfloor>x / cellSize g\<rfloor>)"
  have "?rc \<in> set (block_cells ?g qx qy r)"
    using floor_near[OF cs d(1)] floor_near[OF cs d(2)] by (simp add: block_cells_def)
  moreover have "e \<in> set (cell_at ?g ?rc)" by (rule inserted_in_cell[OF ok mem inb])
  ultimately have "e \<in> set (concat (map (cell_at ?g) (block_cells ?g qx qy r)))"
    by auto
  with cs show ?thesis by (simp add: getNearby_block)
qed

lemma cell_at_insert_all:
  assumes "SpatialGrid_ok g" "0 \<le> r" "r < rows g" "0 \<le> c" "c < cols g"
  shows "cell_at (insert_all ps g) (r, c) =
           cell_at g (r, c)
           @ map fst (filter (\<lambda>q. in_bounds g (fst (snd q)) (snd (snd q))
                                \<and> \<lfloor>snd (snd q) / cellSize g\<rfloor> = r
                                \<and> \<lfloor>fst (snd q) / cellSize g\<rfloor> = c) ps)"
  using assms
proof (induction ps arbitrary: g)
  case Nil
  then show ?case by (simp add: insert_all_def)
next
  case (Cons q ps)
  let ?g = "SpatialGrid_insert g (fst q) (fst (snd q)) (snd (snd q))"
  have ok': "SpatialGrid_ok ?g" by (rule SpatialGrid_insert_ok[OF Cons.prems(1)])
  have unfold: "insert_all (q # ps) g = insert_all ps ?g" by (simp add: insert_all_def)
  have "cell_at (insert_all ps ?g) (r, c) =
          cell_at ?g (r, c)
          @ map fst (filter (\<lambda>q. in_bounds g (fst (snd q)) (snd (snd q))
                               \<and> \<lfloor>snd (snd q) / cellSize g\<rfloor> = r
                               \<and> \<lfloor>fst (snd q) / cellSize g\<rfloor> = c) ps)"
    using Cons.IH[OF ok'] Cons.prems by simp
  then show ?case
    unfolding unfold
    using cell_at_insert[OF Cons.prems, of "fst q" "fst (snd q)" "snd (snd q)"] by simp
qed

text \<open>
  Claim C1, as the code has it. Take a well-formed grid (positive cell size, as the
  constructor builds it) and any sequence \<open>ps\<close> of \<^verbatim>\<open>insert(e, x, y)\<close> calls on it.
  \<^item> Every entity inserted at a position inside the indexed bounds whose Euclidean
    distance from the query point is at most \<open>r\<close> is in the result of
    \<^verbatim>\<open>getNearby(qx, qy, r)\<close>.
  \<^item> The result is the concatenation, in loop order, of the cells of the block around
    the query point's cell; for \<open>r \<ge> 0\<close> the block has \<open>(2 * \<lceil>r / cellSize\<rceil> + 1)\<^sup>2\<close>
    cells, those outside the grid being empty.
  \<^item> A cell of the grid holds what it held before, followed by the entities inserted at
    in-bounds positions of that cell, in insertion order.
  \<^item> \<^verbatim>\<open>insert\<close> at a position outside the indexed bounds leaves the grid unchanged.
\<close>

theorem getNearby_contract:
  assumes "SpatialGrid_ok g"
  shows "((e, x, y) \<in> set ps \<and> in_bounds g x y \<and> utils_distance qx qy x y \<le> r
            \<longrightarrow> e \<in> set (SpatialGrid_getNearby (insert_all ps g) qx qy r))
       \<and> SpatialGrid_getNearby (insert_all ps g) qx qy r
           = concat (map (cell_at (insert_all ps g)) (block_cells (insert_all ps g) qx qy r))
       \<and> (0 \<le> r \<longrightarrow>
            int (length (block_cells (insert_all ps g) qx qy r))
              = (2 * \<lceil>r / cellSize g\<rceil> + 1)\<^sup>2)
       \<and> (0 \<le> row \<and> row < rows g \<and> 0 \<le> col \<and> col < cols g \<longrightarrow>
            cell_at (insert_all ps g) (row, col) =
              cell_at g (row, col)
              @ map fst (filter (\<lambda>q. in_bounds g (fst (snd q)) (snd (snd q))
                                   \<and> \<lfloor>snd (snd q) / cellSize g\<rfloor> = row
                                   \<and> \<lfloor>fst (snd q) / cellSize g\<rfloor> = col) ps))
       \<and> (\<not> in_bounds g x' y' \<longrightarrow> SpatialGrid_insert g p x' y' = g)"
proof -
  have cs: "0 < cellSize g" using assms by (simp add: SpatialGrid_ok_def)
  have 1: "(e, x, y) \<in> set ps \<and> in_bounds g x y \<and> utils_distance qx qy x y \<le> r
            \<longrightarrow> e \<in> set (SpatialGrid_getNearby (insert_all ps g) qx qy r)"
    using getNearby_superset[OF assms] by blast
  have 2: "SpatialGrid_getNearby (insert_all ps g) qx qy r
           = concat (map (cell_at (insert_all ps g)) (block_cells (insert_all ps g) qx qy r))"
    using cs by (simp add: getNearby_block)
  have 3: "0 \<le> r \<longrightarrow> int (length (block_cells (insert_all ps g) qx qy r))
              = (2 * \<lceil>r / cellSize g\<rceil> + 1)\<^sup>2"
  proof
    assume "0 \<le> r"
    then have "0 \<le> r / cellSize g" using cs by simp
    then have "0 \<le> \<lceil>r / cellSize g\<rceil>" by linarith
    then show "int (length (block_cells (insert_all ps g) qx qy r))
              = (2 * \<lceil>r / cellSize g\<rceil> + 1)\<^sup>2"
      using length_block_cells[of r "insert_all ps g" qx qy] by simp
  qed
  have 4: "0 \<le> row \<and> row < rows g \<and> 0 \<le> col \<and> col < cols g \<longrightarrow>
            cell_at (insert_all ps g) (row, col) =
              cell_at g (row, col)
              @ map fst (filter (\<lambda>q. in_bounds g (fst (snd q)) (snd (snd q))
                                   \<and> \<lfloor>snd (snd q) / cellSize g\<rfloor> = row
                                   \<and> \<lfloor>fst (snd q) / cellSize g\<rfloor> = col) ps)"
    using cell_at_insert_all[OF assms] by blast
  have 5: "\<not> in_bounds g x' y' \<longrightarrow> SpatialGrid_insert g p x' y' = g"
    by (simp add: insert_out_of_bounds)
  from 1 2 3 4 5 show ?thesis by blast
qed

lemma grid_2x2_new: "SpatialGrid_new 200 200 100 = Some grid_2x2"
  by (simp add: SpatialGrid_new_def grid_2x2_def Let_def eval_nat_numeral)

lemma grid_2x2_ok: "SpatialGrid_ok grid_2x2"
  by (simp add: SpatialGrid_ok_def grid_2x2_def)

lemma sqrt_100: "sqrt 100 = 10"
  by (rule real_sqrt_unique) simp_all

theorem getNearby_contract_witness:
  "SpatialGrid_ok grid_2x2
   \<and> in_bounds grid_2x2 50 50
   \<and> utils_distance 60 50 50 50 \<le> 100
   \<and> 1 \<in> set (SpatialGrid_getNearby
                  (insert_all [(1, 50, 50), (2, 150, 150), (3, - 5, 50)] grid_2x2) 60 50 100)
   \<and> int (length (block_cells
                    (insert_all [(1, 50, 50), (2, 150, 150), (3, - 5, 50)] grid_2x2) 60 50 100))
       = 9
   \<and> cell_at (insert_all [(1, 50, 50), (2, 150, 150), (3, - 5, 50)] grid_2x2) (0, 0) = [1]
   \<and> \<not> in_bounds grid_2x2 (- 5) 50
   \<and> SpatialGrid_insert grid_2x2 3 (- 5) 50 = grid_2x2"
proof -
  let ?ps = "[(1, 50, 50), (2, 150, 150), (3, - 5, 50)] :: (nat \<times> real \<times> real) list"
  have b: "in_bounds grid_2x2 50 50" "\<not> in_bounds grid_2x2 (- 5) 50"
    by (simp_all add: in_bounds_def grid_2x2_def)
  have d: "utils_distance 60 50 50 50 \<le> 100"
    by (simp add: utils_distance_def sqrt_100)
  have c: "\<lceil>100 / cellSize grid_2x2\<rceil> = 1" by (simp add: grid_2x2_def)
  have f: "map fst (filter (\<lambda>q. in_bounds grid_2x2 (fst (snd q)) (snd (snd q))
                               \<and> \<lfloor>snd (snd q) / cellSize grid_2x2\<rfloor> = 0
                               \<and> \<lfloor>fst (snd q) / cellSize grid_2x2\<rfloor> = 0) ?ps) = [1]"
    by (simp add: in_bounds_def grid_2x2_def)
  have e: "cell_at grid_2x2 (0, 0) = []" "0 < rows grid_2x2" "0 < cols grid_2x2"
    by (simp_all add: cell_at_def grid_2x2_def)
  note T = getNearby_contract [OF grid_2x2_ok, where e = 1 and x = 50 and y = 50
      and ps = ?ps and qx = 60 and qy = 50 and r = 100 and row = 0 and col = 0
      and x' = "- 5" and y' = 50 and p = 3]
  have m: "(1, 50, 50) \<in> set ?ps" by simp
  have 1: "1 \<in> set (SpatialGrid_getNearby (insert_all ?ps grid_2x2) 60 50 100)"
    using T [THEN conjunct1] m b d by blast
  have 2: "int (length (block_cells (insert_all ?ps grid_2x2) 60 50 100)) = 9"
    using T [THEN conjunct2, THEN conjunct2, THEN conjunct1] c by simp
  have 3: "cell_at (insert_all ?ps grid_2x2) (0, 0) = [1]"
    using T [THEN conjunct2, THEN conjunct2, THEN conjunct2, THEN conjunct1] e f by simp
  have 4: "SpatialGrid_insert grid_2x2 3 (- 5) 50 = grid_2x2"
    using T [THEN conjunct2, THEN conjunct2, THEN conjunct2, THEN conjunct2] b by blast
  from grid_2x2_ok b d 1 2 3 4 show ?thesis by blast
qed

text \<open>
  Against claim C1 as stated (every inserted entity within the radius is returned): on
  the 200 by 200 grid, \<^verbatim>\<open>insert(7, -5, 50)\<close> is outside the indexed bounds and stores
  nothing, so \<^verbatim>\<open>getNearby(5, 50, 100)\<close> is empty although the entity is 10 away from the
  query point.
\<close>

theorem getNearby_misses_out_of_bounds:
  "SpatialGrid_new 200 200 100 = Some grid_2x2
   \<and> utils_distance 5 50 (- 5) 50 \<le> 100
   \<and> 7 \<notin> set (SpatialGrid_getNearby (insert_all [(7, - 5, 50)] grid_2x2) 5 50 100)"
proof -
  have "utils_distance 5 50 (- 5) 50 \<le> 100"
    by (simp add: utils_distance_def sqrt_100)
  moreover have "insert_all [(7, - 5, 50)] grid_2x2 = grid_2x2"
    by (simp add: insert_all_def SpatialGrid_insert_def grid_2x2_def)
  moreover have "SpatialGrid_getNearby grid_2x2 5 50 100 = []"
    by (simp add: SpatialGrid_getNearby_def grid_2x2_def Let_def upto.simps)
  ultimately show ?thesis using grid_2x2_new by simp
qed

subsection \<open>Trail and glyph buffers\<close>

lemma Particle3D_update_cap [simp]:
  "maxTrailLength (Particle3D_update cv rng t p) = maxTrailLength p"
  by (simp add: Particle3D_update_def Particle3D_reset_def Let_def)

lemma Particle3D_update_bound:
  assumes "1 \<le> maxTrailLength p" "length (trail p) \<le> maxTrailLength p"
  shows "length (trail (Particle3D_update cv rng t p)) \<le> maxTrailLength p"
  using assms by (auto simp: Particle3D_update_def Particle3D_reset_def Let_def)

lemma Particle3D_run_bound:
  "1 \<le> maxTrailLength p \<Longrightarrow> length (trail p) \<le> maxTrailLength p \<Longrightarrow>
   maxTrailLength (Particle3D_run cv ticks p) = maxTrailLength p
   \<and> length (trail (Particle3D_run cv ticks p)) \<le> maxTrailLength p"
  unfolding Particle3D_run_def
proof (induction ticks arbitrary: p)
  case Nil
  then show ?case by simp
next
  case (Cons tk ticks)
  let ?p = "Particle3D_update cv (snd tk) (fst tk) p"
  have "1 \<le> maxTrailLength ?p" using Cons.prems by simp
  moreover have "length (trail ?p) \<le> maxTrailLength ?p"
    using Particle3D_update_bound[OF Cons.prems] by simp
  ultimately show ?case using Cons.IH[of ?p] by simp
qed

lemma Particle3D_update_evicts:
  assumes "t - lastTrailTime p > 50"
    and "in_volume cv (p3_x p + p3_vx p) (p3_y p + p3_vy p) (p3_z p + p3_vz p)"
  shows "trail (Particle3D_update cv rng t p)
           = ring_push (maxTrailLength p) (trail p)
               (p3_x p + p3_vx p, p3_y p + p3_vy p, p3_z p + p3_vz p)"
  using assms by (simp add: Particle3D_update_def in_volume_def ring_push_def Let_def)

lemma length_age_loop: "i \<le> length cs \<Longrightarrow> length (age_loop i cs) \<le> length cs"
proof (induction i arbitrary: cs)
  case 0
  then show ?case by simp
next
  case (Suc i)
  let ?cs1 = "cs[i := aged (cs ! i)]"
  let ?cs2 = "if g_age (?cs1 ! i) > 80 then take i ?cs1 @ drop (Suc i) ?cs1 else ?cs1"
  have "i \<le> length ?cs2" using Suc.prems by auto
  from Suc.IH[OF this] have "length (age_loop i ?cs2) \<le> length ?cs2" .
  moreover have "length ?cs2 \<le> length cs" by auto
  ultimately show ?case by (simp add: Let_def del: One_nat_def)
qed

lemma age_loop_prefix:
  "i \<le> length cs \<Longrightarrow>
   age_loop i cs = filter (\<lambda>g. \<not> g_age g > 80) (map aged (take i cs)) @ drop i cs"
proof (induction i arbitrary: cs)
  case 0
  then show ?case by simp
next
  case (Suc i)
  then have i: "i < length cs" by simp
  let ?cs1 = "cs[i := aged (cs ! i)]"
  have t1: "take i ?cs1 = take i cs" by simp
  have d1: "drop (Suc i) ?cs1 = drop (Suc i) cs" by simp
  have n1: "?cs1 ! i = aged (cs ! i)" using i by simp
  have "drop i ?cs1 = ?cs1 ! i # drop (Suc i) ?cs1"
    using i by (intro Cons_nth_drop_Suc[symmetric]) simp
  then have di: "drop i ?cs1 = aged (cs ! i) # drop (Suc i) cs"
    using n1 d1 by simp
  have tS: "take (Suc i) cs = take i cs @ [cs ! i]" using i by (simp add: take_Suc_conv_app_nth)
  show ?case
  proof (cases "g_age (aged (cs ! i)) > 80")
    case True
    let ?cs2 = "take i cs @ drop (Suc i) cs"
    have "i \<le> length ?cs2" using i by simp
    from Suc.IH[OF this] have "age_loop i ?cs2
        = filter (\<lambda>g. \<not> g_age g > 80) (map aged (take i cs)) @ drop (Suc i) cs"
      using i by simp
    with True n1 t1 d1 tS show ?thesis by (simp add: Let_def)
  next
    case False
    have "i \<le> length ?cs1" using i by simp
    from Suc.IH[OF this] t1 di have "age_loop i ?cs1
        = filter (\<lambda>g. \<not> g_age g > 80) (map aged (take i cs)) @ aged (cs ! i) # drop (Suc i) cs"
      by simp
    with False n1 tS show ?thesis by (simp add: Let_def)
  qed
qed

lemma age_loop_all:
  "age_loop (length cs) cs = filter (\<lambda>g. \<not> g_age g > 80) (map aged cs)"
  using age_loop_prefix[of "length cs" cs] by simp


lemma MatrixColumn_update_no_growth_at_capacity:
  assumes "maxLength c \<le> real (length (characters c))"
  shows "length (characters (MatrixColumn_update dev cfg cv rng now c)) \<le> length (characters c)"
  using assms length_age_loop[of "length (characters c)" "characters c"]
  by (simp add: MatrixColumn_update_def MatrixColumn_reset_def Let_def)

lemma whole_cap_push:
  assumes "whole_cap m" "real n < m"
  shows "real (Suc n) \<le> m"
proof -
  from assms(1) have m: "m = real_of_int \<lfloor>m\<rfloor>" by (simp add: whole_cap_def)
  from assms(2) m have "real n < real_of_int \<lfloor>m\<rfloor>" by simp
  then have "int n < \<lfloor>m\<rfloor>" by linarith
  then have "int (Suc n) \<le> \<lfloor>m\<rfloor>" by simp
  then have "real_of_int (int (Suc n)) \<le> real_of_int \<lfloor>m\<rfloor>" by (simp only: of_int_le_iff)
  with m show ?thesis by simp
qed

lemma MatrixColumn_update_whole_cap:
  assumes cap: "whole_cap (maxLength c)"
    and len: "real (length (characters c)) \<le> maxLength c"
    and fresh: "whole_cap (utils_random (rng 2) 5 (matrix_maxTrailLength cfg))"
  shows "whole_cap (maxLength (MatrixColumn_update dev cfg cv rng now c))
       \<and> real (length (characters (MatrixColumn_update dev cfg cv rng now c)))
           \<le> maxLength (MatrixColumn_update dev cfg cv rng now c)"
proof (cases "reducedMotion dev")
  case True
  with cap len show ?thesis by (simp add: MatrixColumn_update_def)
next
  case False
  show ?thesis
  proof (cases "mc_y c + mc_speed c > cv_height cv + 100")
    case True
    with False fresh show ?thesis
      by (simp add: MatrixColumn_update_def MatrixColumn_reset_def Let_def whole_cap_def)
  next
    case noreset: False
    let ?n = "length (characters c)"
    show ?thesis
    proof (cases "now > nextCharTime c \<and> real ?n < maxLength c")
      case True
      let ?cs = "characters c @
                   [\<lparr> g_char = char_at (matrix_characters cfg)
                        (utils_randomInt (rng 0) 0 (int (length (matrix_characters cfg)) - 1)),
                      g_age = 0 \<rparr>]"
      have "length (age_loop (length ?cs) ?cs) \<le> length ?cs" by (rule length_age_loop) simp
      then have "real (length (age_loop (length ?cs) ?cs)) \<le> real (Suc ?n)" by simp
      also have "\<dots> \<le> maxLength c" using whole_cap_push[OF cap] True by blast
      finally show ?thesis
        using False noreset True cap
        by (simp add: MatrixColumn_update_def Let_def)
    next
      case nopush: False
      have "length (age_loop ?n (characters c)) \<le> ?n" by (rule length_age_loop) simp
      then have "real (length (age_loop ?n (characters c))) \<le> maxLength c"
        using len by linarith
      then show ?thesis
        using False noreset nopush cap
        by (auto simp: MatrixColumn_update_def Let_def)
    qed
  qed
qed

lemma MatrixColumn_run_whole_cap:
  "whole_cap (maxLength c) \<Longrightarrow> real (length (characters c)) \<le> maxLength c \<Longrightarrow>
   list_all (\<lambda>tk. whole_cap (utils_random (snd tk 2) 5 (matrix_maxTrailLength cfg))) ticks \<Longrightarrow>
   real (length (characters (MatrixColumn_run dev cfg cv ticks c)))
     \<le> maxLength (MatrixColumn_run dev cfg cv ticks c)"
  unfolding MatrixColumn_run_def
proof (induction ticks arbitrary: c)
  case Nil
  then show ?case by simp
next
  case (Cons tk ticks)
  from Cons.prems(3) have f: "whole_cap (utils_random (snd tk 2) 5 (matrix_maxTrailLength cfg))"
    and r: "list_all (\<lambda>tk. whole_cap (utils_random (snd tk 2) 5 (matrix_maxTrailLength cfg))) ticks"
    by simp_all
  have "whole_cap (maxLength (MatrixColumn_update dev cfg cv (snd tk) (fst tk) c))
       \<and> real (length (characters (MatrixColumn_update dev cfg cv (snd tk) (fst tk) c)))
           \<le> maxLength (MatrixColumn_update dev cfg cv (snd tk) (fst tk) c)"
    using Cons.prems(1,2) f by (rule MatrixColumn_update_whole_cap)
  then show ?case using Cons.IH[OF _ _ r] by simp
qed

lemma MatrixColumn_new_empty:
  "characters (MatrixColumn_new dev cfg rng x) = []
   \<and> maxLength (MatrixColumn_new dev cfg rng x)
       = utils_random (rng 2) 5 (matrix_maxTrailLength cfg)"
  by (simp add: MatrixColumn_new_def MatrixColumn_reset_def)

lemma Particle3D_new_empty:
  "trail (Particle3D_new dev cv rng) = []
   \<and> maxTrailLength (Particle3D_new dev cv rng) = (if mobile dev then 4 else 8)"
  by (simp add: Particle3D_new_def Particle3D_reset_def)

text \<open>
  The glyph buffer after \<^verbatim>\<open>update()\<close>, exactly: unchanged under reduced motion, empty
  after a reset, and otherwise the old glyphs, followed by the new one when an insertion
  is due and the buffer is shorter than \<open>maxLength\<close>, each a tick older and those older
  than 80 removed.
\<close>

lemma MatrixColumn_update_characters:
  "characters (MatrixColumn_update dev cfg cv rng now c) =
     (if reducedMotion dev then characters c
      else if mc_y c + mc_speed c > cv_height cv + 100 then []
      else filter (\<lambda>g. g_age g \<le> 80)
             (map aged
                (if now > nextCharTime c \<and> real (length (characters c)) < maxLength c
                 then characters c @
                        [\<lparr> g_char = char_at (matrix_characters cfg)
                             (utils_randomInt (rng 0) 0
                                (int (length (matrix_characters cfg)) - 1)),
                           g_age = 0 \<rparr>]
                 else characters c)))"
proof -
  have al: "\<And>cs. age_loop (length cs) cs = filter (\<lambda>g. g_age g \<le> 80) (map aged cs)"
    by (simp add: age_loop_all not_less)
  let ?g = "\<lparr> g_char = char_at (matrix_characters cfg)
                   (utils_randomInt (rng 0) 0 (int (length (matrix_characters cfg)) - 1)),
               g_age = 0 \<rparr>"
  have al1: "age_loop (Suc (length (characters c))) (characters c @ [?g])
               = filter (\<lambda>g. g_age g \<le> 80) (map aged (characters c @ [?g]))"
    using al[of "characters c @ [?g]"] by simp
  show ?thesis
    by (simp add: MatrixColumn_update_def MatrixColumn_reset_def Let_def al al1
        del: age_loop.simps)
qed

text \<open>
  Claim C2, as the code has it. For every Particle3D, freshly constructed and then
  updated any number of times at any clock values, the trail is never longer than
  \<open>maxTrailLength\<close> (4 or 8), and every trail insertion is a ring-buffer push: at
  capacity the oldest sample is evicted. A MatrixColumn is not a ring buffer. Its glyph
  buffer after an update is exactly this: unchanged under reduced motion, empty after a
  reset, and otherwise the old glyphs in order, followed by a new glyph of age 0 only
  when an insertion is due and the buffer is shorter than \<open>maxLength\<close>, each glyph a
  tick older and those older than 80 removed; nothing is evicted on insertion. So an
  update never makes a buffer longer that is at or over \<open>maxLength\<close>, and when every
  capacity drawn for the column is a whole number, the glyph buffer is never longer than
  \<open>maxLength\<close>, for any number of ticks and any clock values.
\<close>

theorem buffers_bounded:
  assumes "whole_cap (utils_random (rng0 2) 5 (matrix_maxTrailLength cfg))"
    and "list_all (\<lambda>tk. whole_cap (utils_random (snd tk 2) 5 (matrix_maxTrailLength cfg)))
           mticks"
  shows "length (trail (Particle3D_run cv pticks (Particle3D_new dev cv rng)))
           \<le> maxTrailLength (Particle3D_run cv pticks (Particle3D_new dev cv rng))
       \<and> maxTrailLength (Particle3D_run cv pticks (Particle3D_new dev cv rng))
           = (if mobile dev then 4 else 8)
       \<and> (t - lastTrailTime p > 50
            \<and> in_volume cv (p3_x p + p3_vx p) (p3_y p + p3_vy p) (p3_z p + p3_vz p)
          \<longrightarrow> trail (Particle3D_update cv rng' t p)
                = ring_push (maxTrailLength p) (trail p)
                    (p3_x p + p3_vx p, p3_y p + p3_vy p, p3_z p + p3_vz p))
       \<and> real (length (characters
                   (MatrixColumn_run dev cfg cv' mticks (MatrixColumn_new dev cfg rng0 x))))
           \<le> maxLength (MatrixColumn_run dev cfg cv' mticks (MatrixColumn_new dev cfg rng0 x))
       \<and> (maxLength c \<le> real (length (characters c))
          \<longrightarrow> length (characters (MatrixColumn_update dev cfg cv' rng'' now c))
                \<le> length (characters c))
       \<and> characters (MatrixColumn_update dev cfg cv' rng'' now c) =
           (if reducedMotion dev then characters c
            else if mc_y c + mc_speed c > cv_height cv' + 100 then []
            else filter (\<lambda>g. g_age g \<le> 80)
                   (map aged
                      (if now > nextCharTime c \<and> real (length (characters c)) < maxLength c
                       then characters c @
                              [\<lparr> g_char = char_at (matrix_characters cfg)
                                   (utils_randomInt (rng'' 0) 0
                                      (int (length (matrix_characters cfg)) - 1)),
                                 g_age = 0 \<rparr>]
                       else characters c)))"
proof -
  let ?p0 = "Particle3D_new dev cv rng"
  have p0: "1 \<le> maxTrailLength ?p0" "length (trail ?p0) \<le> maxTrailLength ?p0"
    using Particle3D_new_empty[of dev cv rng] by simp_all
  from Particle3D_run_bound[OF p0, of cv pticks] Particle3D_new_empty[of dev cv rng]
  have 1: "length (trail (Particle3D_run cv pticks ?p0))
             \<le> maxTrailLength (Particle3D_run cv pticks ?p0)"
    and 2: "maxTrailLength (Particle3D_run cv pticks ?p0) = (if mobile dev then 4 else 8)"
    by simp_all
  have 3: "t - lastTrailTime p > 50
            \<and> in_volume cv (p3_x p + p3_vx p) (p3_y p + p3_vy p) (p3_z p + p3_vz p)
          \<longrightarrow> trail (Particle3D_update cv rng' t p)
                = ring_push (maxTrailLength p) (trail p)
                    (p3_x p + p3_vx p, p3_y p + p3_vy p, p3_z p + p3_vz p)"
    using Particle3D_update_evicts[where p = p and t = t and cv = cv and rng = rng'] by blast
  let ?c0 = "MatrixColumn_new dev cfg rng0 x"
  have c0: "whole_cap (maxLength ?c0)" "real (length (characters ?c0)) \<le> maxLength ?c0"
    using assms(1) MatrixColumn_new_empty[of dev cfg rng0 x] by (simp_all add: whole_cap_def)
  have 4: "real (length (characters (MatrixColumn_run dev cfg cv' mticks ?c0)))
             \<le> maxLength (MatrixColumn_run dev cfg cv' mticks ?c0)"
    using c0 assms(2) by (rule MatrixColumn_run_whole_cap)
  have 5: "maxLength c \<le> real (length (characters c))
          \<longrightarrow> length (characters (MatrixColumn_update dev cfg cv' rng'' now c))
                \<le> length (characters c)"
    using MatrixColumn_update_no_growth_at_capacity[of c dev cfg cv' rng'' now] by blast
  note 6 = MatrixColumn_update_characters[of dev cfg cv' rng'' now c]
  from 1 2 3 4 5 6 show ?thesis by blast
qed

lemma second_ticks_numeral:
  "second_ticks (numeral k) now = (now, rng_const 0) # second_ticks (pred_numeral k) (now + 1000)"
  by (simp add: numeral_eq_Suc)

lemmas column_defs =
  MatrixColumn_run_def MatrixColumn_update_def MatrixColumn_new_def MatrixColumn_reset_def
  CONFIG_init_def desktop_device_def getParticleCount_def getAnimationSpeed_def
  canvas_800x600_def rng_const_def rng_cap_def utils_random_def utils_randomInt_def
  char_at_def matrix_glyphs_def second_ticks_numeral Let_def age_loop_all aged_def

theorem buffers_bounded_witness:
  "whole_cap (utils_random (rng_cap (1 / 2) 2) 5
               (matrix_maxTrailLength (CONFIG_init desktop_device)))
   \<and> list_all (\<lambda>tk. whole_cap (utils_random (snd tk 2) 5
                                  (matrix_maxTrailLength (CONFIG_init desktop_device))))
        (second_ticks 2 1000)
   \<and> length (trail (Particle3D_run canvas_800x600 [(100, rng_const 0)]
                      (Particle3D_new desktop_device canvas_800x600 (rng_const (1 / 2)))))
       \<le> 8
   \<and> length (trail full_trail_particle) = maxTrailLength full_trail_particle
   \<and> trail (Particle3D_update canvas_800x600 (rng_const 0) 100 full_trail_particle)
       = [(2, 2, 0), (3, 3, 0), (4, 4, 0), (6, 6, 0)]
   \<and> real (length (characters
               (MatrixColumn_run desktop_device (CONFIG_init desktop_device) canvas_800x600
                  (second_ticks 2 1000)
                  (MatrixColumn_new desktop_device (CONFIG_init desktop_device)
                     (rng_cap (1 / 2)) 10))))
       \<le> maxLength
            (MatrixColumn_run desktop_device (CONFIG_init desktop_device) canvas_800x600
               (second_ticks 2 1000)
               (MatrixColumn_new desktop_device (CONFIG_init desktop_device)
                  (rng_cap (1 / 2)) 10))
   \<and> maxLength full_column \<le> real (length (characters full_column))
   \<and> nextCharTime full_column < 1000
   \<and> length (characters
        (MatrixColumn_update desktop_device (CONFIG_init desktop_device) canvas_800x600
           (rng_const 0) 1000 full_column)) \<le> 1
   \<and> characters
        (MatrixColumn_update desktop_device (CONFIG_init desktop_device) canvas_800x600
           (rng_const 0) 1000 full_column) = [\<lparr> g_char = Some 48, g_age = 4 \<rparr>]
   \<and> characters
        (MatrixColumn_update desktop_device (CONFIG_init desktop_device) canvas_800x600
           (rng_const 0) 1000
           (MatrixColumn_new desktop_device (CONFIG_init desktop_device) (rng_cap (1 / 2)) 10))
       = [\<lparr> g_char = Some 48, g_age = 1 \<rparr>]"
proof -
  have h1: "whole_cap (utils_random (rng_cap (1 / 2) 2) 5
               (matrix_maxTrailLength (CONFIG_init desktop_device)))"
    by (simp add: whole_cap_def utils_random_def rng_cap_def CONFIG_init_def
        desktop_device_def)
  have h2: "list_all (\<lambda>tk. whole_cap (utils_random (snd tk 2) 5
                                  (matrix_maxTrailLength (CONFIG_init desktop_device))))
        (second_ticks 2 1000)"
    by (simp add: whole_cap_def utils_random_def rng_const_def CONFIG_init_def
        desktop_device_def second_ticks_numeral)
  let ?p = full_trail_particle
  have cv: "cv_width canvas_800x600 = 800" "cv_height canvas_800x600 = 600"
    by (simp_all add: canvas_800x600_def)
  have pv: "p3_x ?p + p3_vx ?p = 6" "p3_y ?p + p3_vy ?p = 6" "p3_z ?p + p3_vz ?p = 0"
    "lastTrailTime ?p = 0" "trail ?p = [(1, 1, 0), (2, 2, 0), (3, 3, 0), (4, 4, 0)]"
    "maxTrailLength ?p = 4"
    by (simp_all add: full_trail_particle_def)
  have vol: "100 - lastTrailTime ?p > 50
     \<and> in_volume canvas_800x600 (p3_x ?p + p3_vx ?p) (p3_y ?p + p3_vy ?p) (p3_z ?p + p3_vz ?p)"
    by (simp add: pv in_volume_def cv)
  have fc: "maxLength full_column \<le> real (length (characters full_column))"
    "length (characters full_column) = 1" "nextCharTime full_column < 1000"
    by (simp_all add: full_column_def)
  let ?c0 = "MatrixColumn_new desktop_device (CONFIG_init desktop_device) (rng_cap (1 / 2)) 10"
  note T = buffers_bounded [where ?rng0.0 = "rng_cap (1 / 2)"
      and cfg = "CONFIG_init desktop_device" and mticks = "second_ticks 2 1000"
      and cv = canvas_800x600 and pticks = "[(100, rng_const 0)]" and dev = desktop_device
      and rng = "rng_const (1 / 2)" and cv' = canvas_800x600 and x = 10
      and t = 100 and p = ?p and rng' = "rng_const 0" and c = full_column
      and rng'' = "rng_const 0" and now = 1000, OF h1 h2]
  note T0 = buffers_bounded [where ?rng0.0 = "rng_cap (1 / 2)"
      and cfg = "CONFIG_init desktop_device" and mticks = "second_ticks 2 1000"
      and dev = desktop_device and cv' = canvas_800x600 and c = ?c0
      and rng'' = "rng_const 0" and now = 1000, OF h1 h2]
  have 1: "length (trail (Particle3D_run canvas_800x600 [(100, rng_const 0)]
             (Particle3D_new desktop_device canvas_800x600 (rng_const (1 / 2))))) \<le> 8"
    using T [THEN conjunct1] T [THEN conjunct2, THEN conjunct1]
    by (simp add: desktop_device_def)
  have 2: "trail (Particle3D_update canvas_800x600 (rng_const 0) 100 ?p)
             = [(2, 2, 0), (3, 3, 0), (4, 4, 0), (6, 6, 0)]"
    using T [THEN conjunct2, THEN conjunct2, THEN conjunct1] vol
    by (simp add: pv ring_push_def)
  have 3: "length (characters
        (MatrixColumn_update desktop_device (CONFIG_init desktop_device) canvas_800x600
           (rng_const 0) 1000 full_column)) \<le> 1"
    using T [THEN conjunct2, THEN conjunct2, THEN conjunct2, THEN conjunct2, THEN conjunct1] fc
    by simp
  have 4: "characters
        (MatrixColumn_update desktop_device (CONFIG_init desktop_device) canvas_800x600
           (rng_const 0) 1000 full_column) = [\<lparr> g_char = Some 48, g_age = 4 \<rparr>]"
    unfolding T [THEN conjunct2, THEN conjunct2, THEN conjunct2, THEN conjunct2, THEN conjunct2]
    by (simp add: full_column_def desktop_device_def cv aged_def)
  have 5: "characters
        (MatrixColumn_update desktop_device (CONFIG_init desktop_device) canvas_800x600
           (rng_const 0) 1000 ?c0) = [\<lparr> g_char = Some 48, g_age = 1 \<rparr>]"
    unfolding T0 [THEN conjunct2, THEN conjunct2, THEN conjunct2, THEN conjunct2, THEN conjunct2]
    by (simp add: MatrixColumn_new_def MatrixColumn_reset_def CONFIG_init_def
        desktop_device_def getParticleCount_def getAnimationSpeed_def cv rng_const_def
        rng_cap_def utils_random_def utils_randomInt_def char_at_def matrix_glyphs_def aged_def)
  have 6: "length (trail ?p) = maxTrailLength ?p" by (simp add: pv)
  from h1 h2 1 2 3 4 5 6 fc(1,3)
    T [THEN conjunct2, THEN conjunct2, THEN conjunct2, THEN conjunct1]
  show ?thesis by blast
qed

text \<open>
  Against claim C2 as stated. A desktop column is created with the capacity draw 0.05, so
  \<open>maxLength = 5.5\<close>; six updates one second apart leave six glyphs in its buffer.
  And a column of capacity 5 that holds five glyphs and is due for another one gets none:
  after the sixth update the buffer is the same five glyphs, one tick older, the oldest
  still first, where a ring buffer would have dropped it for the new glyph.
\<close>

theorem glyph_buffer_counterexample:
  "maxLength (MatrixColumn_run desktop_device (CONFIG_init desktop_device) canvas_800x600
                (second_ticks 6 1000)
                (MatrixColumn_new desktop_device (CONFIG_init desktop_device)
                   (rng_cap (1 / 20)) 10)) = 11 / 2
   \<and> length (characters
               (MatrixColumn_run desktop_device (CONFIG_init desktop_device) canvas_800x600
                  (second_ticks 6 1000)
                  (MatrixColumn_new desktop_device (CONFIG_init desktop_device)
                     (rng_cap (1 / 20)) 10))) = 6
   \<and> maxLength (MatrixColumn_run desktop_device (CONFIG_init desktop_device) canvas_800x600
                  (second_ticks 5 1000)
                  (MatrixColumn_new desktop_device (CONFIG_init desktop_device)
                     (rng_cap 0) 10)) = 5
   \<and> map g_age (characters
               (MatrixColumn_run desktop_device (CONFIG_init desktop_device) canvas_800x600
                  (second_ticks 5 1000)
                  (MatrixColumn_new desktop_device (CONFIG_init desktop_device)
                     (rng_cap 0) 10))) = [5, 4, 3, 2, 1]
   \<and> map g_age (characters
               (MatrixColumn_run desktop_device (CONFIG_init desktop_device) canvas_800x600
                  (second_ticks 6 1000)
                  (MatrixColumn_new desktop_device (CONFIG_init desktop_device)
                     (rng_cap 0) 10))) = [6, 5, 4, 3, 2]"
  by (simp add: column_defs)

subsection \<open>Connections between hero particles\<close>

lemma grid_3x2_new: "SpatialGrid_new 300 200 100 = Some grid_3x2"
  by (simp add: SpatialGrid_new_def grid_3x2_def Let_def eval_nat_numeral)

lemma hero_at_xy [simp]: "hp_x (hero_at x y) = x" "hp_y (hero_at x y) = y"
  by (simp_all add: hero_at_def)

lemmas rebuild_eval =
  rebuild_grid_def SpatialGrid_insert_def SpatialGrid_clear_def grid_3x2_def Let_def

lemmas grid_eval = SpatialGrid_getNearby_def grid_3x2_def Let_def upto.simps

lemmas draw_eval =
  HeroCanvas_drawConnections_def HeroParticle_findConnections_def CONFIG_init_def
  desktop_device_def getParticleCount_def getAnimationSpeed_def utils_distanceSquared_def
  utils_map_def stroke_ends_def Let_def

lemma rebuild_two:
  "rebuild_grid grid_3x2 [hero_at 100 100, hero_at 150 100]
     = grid_3x2\<lparr> grid := [[], [], [], [], [0, 1], []] \<rparr>"
  by (simp add: rebuild_eval)

lemma nearby_two:
  "SpatialGrid_getNearby (rebuild_grid grid_3x2 [hero_at 100 100, hero_at 150 100]) 100 100 120
     = [0, 1]"
  "SpatialGrid_getNearby (rebuild_grid grid_3x2 [hero_at 100 100, hero_at 150 100]) 150 100 120
     = [0, 1]"
  by (simp_all add: rebuild_two) (simp_all add: grid_eval)

text \<open>For one particle the inner loop draws at most \<^verbatim>\<open>maxConnections\<close> lines.\<close>

lemma connect_loop_capped:
  "length (connect_loop cfg q ps i k js) \<le> hero_maxConnections cfg - k"
proof (induction js arbitrary: k)
  case Nil
  then show ?case by simp
next
  case (Cons j js)
  have "k < hero_maxConnections cfg \<Longrightarrow>
        Suc (length (connect_loop cfg q ps i (Suc k) js)) \<le> hero_maxConnections cfg - k"
    using Cons.IH[of "Suc k"] by linarith
  with Cons.IH[of k] show ?case by (simp add: Let_def)
qed

text \<open>
  Claim C4 at its scenario: two hero particles 50 apart, at (100, 100) and (150, 100), on
  a desktop (connection distance 120, at most 5 connections), quality 1. With the grid
  of a 300 by 200 surface, rebuilt from the two particles as \<^verbatim>\<open>animate\<close> does,
  \<^verbatim>\<open>drawConnections\<close> draws two lines, one from each particle to the other; without a
  grid it draws one.
\<close>

theorem drawConnections_two_particles:
  "SpatialGrid_new 300 200 100 = Some grid_3x2
   \<and> utils_distance 100 100 150 100 = 50
   \<and> map stroke_ends
       (HeroCanvas_drawConnections desktop_device (CONFIG_init desktop_device) 1
          (Some (rebuild_grid grid_3x2 [hero_at 100 100, hero_at 150 100]))
          [hero_at 100 100, hero_at 150 100])
     = [((100, 100), (150, 100)), ((150, 100), (100, 100))]
   \<and> map stroke_ends
       (HeroCanvas_drawConnections desktop_device (CONFIG_init desktop_device) 1
          None [hero_at 100 100, hero_at 150 100])
     = [((100, 100), (150, 100))]"
proof -
  have "sqrt 2500 = 50" by (rule real_sqrt_unique) simp_all
  then have d: "utils_distance 100 100 150 100 = 50" by (simp add: utils_distance_def)
  have g: "map stroke_ends
       (HeroCanvas_drawConnections desktop_device (CONFIG_init desktop_device) 1
          (Some (rebuild_grid grid_3x2 [hero_at 100 100, hero_at 150 100]))
          [hero_at 100 100, hero_at 150 100])
     = [((100, 100), (150, 100)), ((150, 100), (100, 100))]"
    by (simp add: draw_eval nearby_two)
  have l: "map stroke_ends
       (HeroCanvas_drawConnections desktop_device (CONFIG_init desktop_device) 1
          None [hero_at 100 100, hero_at 150 100])
     = [((100, 100), (150, 100))]"
    by (simp add: draw_eval)
  from grid_3x2_new d g l show ?thesis by blast
qed

lemma rebuild_one:
  "rebuild_grid grid_3x2 [hero_at 150 150] = grid_3x2\<lparr> grid := [[], [], [], [], [0], []] \<rparr>"
  by (simp add: rebuild_eval)

lemma rebuild_off_surface:
  "rebuild_grid grid_3x2 [hero_at 5 50, hero_at (- 5) 50]
     = grid_3x2\<lparr> grid := [[0], [], [], [], [], []] \<rparr>"
  by (simp add: rebuild_eval)

lemma nearby_one:
  "SpatialGrid_getNearby (rebuild_grid grid_3x2 [hero_at 150 150]) 150 150 120 = [0]"
  by (simp add: rebuild_one) (simp add: grid_eval)

lemma nearby_off_surface:
  "SpatialGrid_getNearby (rebuild_grid grid_3x2 [hero_at 5 50, hero_at (- 5) 50]) 5 50 120
     = [0]"
  by (simp add: rebuild_off_surface) (simp add: grid_eval)

text \<open>
  Claim C7 at two inputs, on a desktop with connection distance 120 and the grid of a
  300 by 200 surface rebuilt from the particles. A lone particle at (150, 150): through
  the grid \<^verbatim>\<open>findConnections\<close> returns the particle itself, through the linear scan it
  returns nothing. Two particles at (5, 50) and (-5, 50), the second off the surface and
  so not in the grid: for the first particle the grid path returns the particle itself
  and misses the second, the linear scan returns the second.
\<close>

theorem findConnections_paths_differ:
  "HeroParticle_findConnections desktop_device (CONFIG_init desktop_device)
     (Some (rebuild_grid grid_3x2 [hero_at 150 150])) [hero_at 150 150] 0 = [0]
   \<and> HeroParticle_findConnections desktop_device (CONFIG_init desktop_device)
       None [hero_at 150 150] 0 = []
   \<and> HeroParticle_findConnections desktop_device (CONFIG_init desktop_device)
       (Some (rebuild_grid grid_3x2 [hero_at 5 50, hero_at (- 5) 50]))
       [hero_at 5 50, hero_at (- 5) 50] 0 = [0]
   \<and> HeroParticle_findConnections desktop_device (CONFIG_init desktop_device)
       None [hero_at 5 50, hero_at (- 5) 50] 0 = [1]"
  by (simp add: draw_eval nearby_one nearby_off_surface)

subsection \<open>Exceptions in a frame\<close>

lemma forEach_until_length [simp]: "length (fst (forEach_until f n ps)) = length ps"
  by (induction ps arbitrary: n) (simp_all split: option.splits)

lemma forEach_until_ok:
  "(\<And>i p. snd (f i p) = None) \<Longrightarrow> snd (forEach_until f n ps) = None"
  by (induction ps arbitrary: n) simp_all


lemma requestAnimationFrame_fields [simp]:
  "fst (requestAnimationFrame sc w) = raf_next w"
  "raf_pending (snd (requestAnimationFrame sc w)) = raf_pending w @ [(raf_next w, sc)]"
  by (simp_all add: requestAnimationFrame_def)











subsection \<open>Pause and resume\<close>

lemma cancelAnimationFrame_fields [simp]:
  "HeroCanvas_isActive (cancelAnimationFrame h w) = HeroCanvas_isActive w"
  "MatrixCanvas_isActive (cancelAnimationFrame h w) = MatrixCanvas_isActive w"
  "IntroController_isActive (cancelAnimationFrame h w) = IntroController_isActive w"
  "heroAnimationFrame (cancelAnimationFrame h w) = heroAnimationFrame w"
  "matrixAnimationFrame (cancelAnimationFrame h w) = matrixAnimationFrame w"
  "animationFrame (cancelAnimationFrame h w) = animationFrame w"
  by (simp_all add: cancelAnimationFrame_def)

lemma pauseAnimations_flags:
  "\<not> HeroCanvas_isActive (MemoryManager_pauseAnimations w)
   \<and> \<not> MatrixCanvas_isActive (MemoryManager_pauseAnimations w)
   \<and> \<not> IntroController_isActive (MemoryManager_pauseAnimations w)
   \<and> \<not> truthy (heroAnimationFrame (MemoryManager_pauseAnimations w))
   \<and> \<not> truthy (matrixAnimationFrame (MemoryManager_pauseAnimations w))
   \<and> \<not> truthy (animationFrame (MemoryManager_pauseAnimations w))"
proof -
  define w1 where "w1 = w\<lparr> HeroCanvas_isActive := False, MatrixCanvas_isActive := False,
                            IntroController_isActive := False \<rparr>"
  define w2 where "w2 = (if truthy (heroAnimationFrame w1)
                then (case heroAnimationFrame w1 of
                        Some h \<Rightarrow> (cancelAnimationFrame h w1)\<lparr> heroAnimationFrame := None \<rparr>
                      | None \<Rightarrow> w1)
                else w1)"
  define w3 where "w3 = (if truthy (matrixAnimationFrame w2)
                then (case matrixAnimationFrame w2 of
                        Some h \<Rightarrow> (cancelAnimationFrame h w2)\<lparr> matrixAnimationFrame := None \<rparr>
                      | None \<Rightarrow> w2)
                else w2)"
  define w4 where "w4 = (if truthy (animationFrame w3)
                then (case animationFrame w3 of
                        Some h \<Rightarrow> (cancelAnimationFrame h w3)\<lparr> animationFrame := None \<rparr>
                      | None \<Rightarrow> w3)
                else w3)"
  have p: "MemoryManager_pauseAnimations w = w4"
    unfolding MemoryManager_pauseAnimations_def Let_def w4_def w3_def w2_def w1_def ..
  have f1: "\<not> HeroCanvas_isActive w1" "\<not> MatrixCanvas_isActive w1"
    "\<not> IntroController_isActive w1"
    by (simp_all add: w1_def)
  have f2: "\<not> HeroCanvas_isActive w2" "\<not> MatrixCanvas_isActive w2"
    "\<not> IntroController_isActive w2" "\<not> truthy (heroAnimationFrame w2)"
    using f1 by (simp_all add: w2_def split: option.splits)
  have f3: "\<not> HeroCanvas_isActive w3" "\<not> MatrixCanvas_isActive w3"
    "\<not> IntroController_isActive w3" "\<not> truthy (heroAnimationFrame w3)"
    "\<not> truthy (matrixAnimationFrame w3)"
    using f2 by (simp_all add: w3_def split: option.splits)
  have f4: "\<not> HeroCanvas_isActive w4" "\<not> MatrixCanvas_isActive w4"
    "\<not> IntroController_isActive w4" "\<not> truthy (heroAnimationFrame w4)"
    "\<not> truthy (matrixAnimationFrame w4)" "\<not> truthy (animationFrame w4)"
    using f3 by (simp_all add: w4_def split: option.splits)
  from f4 show ?thesis unfolding p by blast
qed

lemma pauseAnimations_paused:
  assumes "\<not> HeroCanvas_isActive w" "\<not> MatrixCanvas_isActive w"
    "\<not> IntroController_isActive w" "\<not> truthy (heroAnimationFrame w)"
    "\<not> truthy (matrixAnimationFrame w)" "\<not> truthy (animationFrame w)"
  shows "MemoryManager_pauseAnimations w = w"
proof -
  have "w\<lparr> HeroCanvas_isActive := False, MatrixCanvas_isActive := False,
           IntroController_isActive := False \<rparr> = w"
    using assms(1-3) by (cases w) simp
  then show ?thesis
    using assms(4-6) by (simp add: MemoryManager_pauseAnimations_def Let_def)
qed

lemma pauseAnimations_idem:
  "MemoryManager_pauseAnimations (MemoryManager_pauseAnimations w)
     = MemoryManager_pauseAnimations w"
  using pauseAnimations_flags[of w] by (intro pauseAnimations_paused) simp_all

lemma HeroCanvas_frame_ok:
  assumes "HeroCanvas_canvas w = Some cv" "\<And>i. env_draw_fault env i = None"
  shows "snd (HeroCanvas_frame env w) = None"
    and "raf_pending (fst (HeroCanvas_frame env w)) = raf_pending w"
    and "raf_next (fst (HeroCanvas_frame env w)) = raf_next w"
    and "MatrixCanvas_canvas (fst (HeroCanvas_frame env w)) = MatrixCanvas_canvas w"
  using assms
  by (simp_all add: HeroCanvas_frame_def Let_def HeroParticle_draw_def forEach_until_ok
      split: option.splits)

lemma HeroCanvas_animate_ok:
  assumes act: "HeroCanvas_isActive w" and cv: "HeroCanvas_canvas w = Some cv"
    and ok: "\<And>i. env_draw_fault env i = None"
  shows "raf_pending (HeroCanvas_animate env w) = raf_pending w @ [(raf_next w, Hero)]
       \<and> heroAnimationFrame (HeroCanvas_animate env w) = Some (raf_next w)
       \<and> MatrixCanvas_canvas (HeroCanvas_animate env w) = MatrixCanvas_canvas w"
proof -
  let ?w0 = "w\<lparr> fps := snd (shouldRender (fps w) (env_now env)) \<rparr>"
  have cv0: "HeroCanvas_canvas ?w0 = Some cv" using cv by simp
  note F = HeroCanvas_frame_ok[OF cv0 ok]
  show ?thesis
    using act F
    by (simp add: HeroCanvas_animate_def HeroCanvas_request_def requestAnimationFrame_def
        Let_def)
qed

lemma MatrixCanvas_frame_shape:
  "fst (MatrixCanvas_frame env w)
     = w\<lparr> MatrixCanvas_columns := MatrixCanvas_columns (fst (MatrixCanvas_frame env w)) \<rparr>"
  by (simp add: MatrixCanvas_frame_def Let_def split: option.splits)

lemma MatrixCanvas_animate_hero_loops:
  "loops_of Hero (MatrixCanvas_animate env w) = loops_of Hero w"
proof -
  let ?w0 = "w\<lparr> fps := snd (shouldRender (fps w) (env_now env)) \<rparr>"
  let ?w3 = "fst (MatrixCanvas_frame env ?w0)"
  have p: "raf_pending ?w3 = raf_pending w" "raf_next ?w3 = raf_next w"
    by (subst MatrixCanvas_frame_shape, simp)+
  show ?thesis
    using p
    by (simp add: MatrixCanvas_animate_def MatrixCanvas_request_def requestAnimationFrame_def
        ErrorHandler_logError_def loops_of_def Let_def split: option.splits)
qed

text \<open>
  The body of \<^verbatim>\<open>resumeAnimations\<close> after the intro, on a page with a hero canvas, in a
  frame without exceptions: whether or not the hero scene is active already, one more
  frame request of the hero scene is pending afterwards and none was cancelled.
\<close>

lemma resume_adds_hero_loop:
  assumes "introCompleted w" "HeroCanvas_canvas w = Some cv"
    "\<And>i. env_draw_fault (env Hero) i = None"
  shows "loops_of Hero (MemoryManager_resume_callback env w) = loops_of Hero w + 1"
proof -
  let ?w1 = "w\<lparr> HeroCanvas_isActive := True, MatrixCanvas_isActive := True \<rparr>"
  have a: "HeroCanvas_isActive ?w1" "HeroCanvas_canvas ?w1 = Some cv" using assms by simp_all
  note H = HeroCanvas_animate_ok[OF a assms(3)]
  have "loops_of Hero (HeroCanvas_animate (env Hero) ?w1) = loops_of Hero w + 1"
    using H by (simp add: loops_of_def)
  then show ?thesis
    using assms(1,2)
    by (simp add: MemoryManager_resume_callback_def Let_def MatrixCanvas_animate_hero_loops)
qed

text \<open>
  What \<^verbatim>\<open>pauseAnimations\<close> and the body of \<^verbatim>\<open>resumeAnimations\<close> do on any page.
  Pausing is idempotent: after it all three \<^verbatim>\<open>isActive\<close> flags are false and no handle
  is set, and a second call changes nothing, the log of cancelled handles included. The
  body of \<^verbatim>\<open>resumeAnimations\<close> does not test whether a scene is active already: after
  the intro, on a page with a hero canvas and in a frame without exceptions, it leaves
  one more hero frame request pending than before.
\<close>

lemma pause_resume:
  "MemoryManager_pauseAnimations (MemoryManager_pauseAnimations w)
     = MemoryManager_pauseAnimations w
   \<and> raf_cancelled (MemoryManager_pauseAnimations (MemoryManager_pauseAnimations w))
       = raf_cancelled (MemoryManager_pauseAnimations w)
   \<and> \<not> HeroCanvas_isActive (MemoryManager_pauseAnimations w)
   \<and> \<not> MatrixCanvas_isActive (MemoryManager_pauseAnimations w)
   \<and> \<not> IntroController_isActive (MemoryManager_pauseAnimations w)
   \<and> \<not> truthy (heroAnimationFrame (MemoryManager_pauseAnimations w))
   \<and> \<not> truthy (matrixAnimationFrame (MemoryManager_pauseAnimations w))
   \<and> \<not> truthy (animationFrame (MemoryManager_pauseAnimations w))
   \<and> (introCompleted w \<and> HeroCanvas_canvas w = Some cv
        \<and> (\<forall>i. env_draw_fault (env Hero) i = None)
      \<longrightarrow> loops_of Hero (MemoryManager_resume_callback env w) = loops_of Hero w + 1)"
  using pauseAnimations_idem[of w] pauseAnimations_flags[of w]
    resume_adds_hero_loop[of w cv env]
  by simp

lemma page1_resume:
  "introCompleted page1" "HeroCanvas_canvas page1 = Some canvas_300x200"
  "HeroCanvas_isActive page1" "loops_of Hero page1 = 1"
  "heroAnimationFrame page1 = Some 1" "raf_pending page1 = [(1, Hero), (2, Matrix)]"
  by (simp_all add: page1_def loops_of_def)

lemma page1_recovery: "ErrorHandler_recovery_callback env page1 = page1"
  by (simp add: ErrorHandler_recovery_callback_def page1_def Let_def)

lemma page1_paused:
  "raf_cancelled (MemoryManager_pauseAnimations page1) = [1, 2]"
  "raf_pending (MemoryManager_pauseAnimations page1) = []"
  by (simp_all add: MemoryManager_pauseAnimations_def cancelAnimationFrame_def page1_def
      Let_def)

text \<open>
  Claim C9 at a page the script reaches: after the intro, the hero scene active, its
  loop alive with the frame request 1 pending and \<^verbatim>\<open>heroAnimationFrame = 1\<close>. Pausing
  twice is the same as pausing once and cancels the handles 1 and 2 once each. But the
  body of \<^verbatim>\<open>resumeAnimations\<close>, run on this already active scene, is not a no-op: two
  hero frame requests are pending afterwards, so a second loop has started. The
  animation-frame recovery of \<^verbatim>\<open>ErrorHandler.attemptRecovery\<close>, which restarts a loop only
  under \<^verbatim>\<open>isActive && !heroAnimationFrame\<close>, leaves the same page as it is.
\<close>

theorem resume_starts_second_loop:
  "introCompleted page1
   \<and> HeroCanvas_isActive page1
   \<and> heroAnimationFrame page1 = Some 1
   \<and> raf_pending page1 = [(1, Hero), (2, Matrix)]
   \<and> loops_of Hero page1 = 1
   \<and> loops_of Hero (MemoryManager_resume_callback (\<lambda>sc. calm_env 1000) page1) = 2
   \<and> MemoryManager_resume_callback (\<lambda>sc. calm_env 1000) page1 \<noteq> page1
   \<and> ErrorHandler_recovery_callback (\<lambda>sc. calm_env 1000) page1 = page1
   \<and> MemoryManager_pauseAnimations (MemoryManager_pauseAnimations page1)
       = MemoryManager_pauseAnimations page1
   \<and> raf_cancelled (MemoryManager_pauseAnimations (MemoryManager_pauseAnimations page1))
       = [1, 2]"
proof -
  have "loops_of Hero (MemoryManager_resume_callback (\<lambda>sc. calm_env 1000) page1)
          = loops_of Hero page1 + 1"
    by (rule resume_adds_hero_loop[OF page1_resume(1,2)]) (simp add: calm_env_def)
  then have 2: "loops_of Hero (MemoryManager_resume_callback (\<lambda>sc. calm_env 1000) page1) = 2"
    using page1_resume(4) by simp
  then have 3: "MemoryManager_resume_callback (\<lambda>sc. calm_env 1000) page1 \<noteq> page1"
    using page1_resume(4) by auto
  have 4: "raf_cancelled (MemoryManager_pauseAnimations (MemoryManager_pauseAnimations page1))
             = [1, 2]"
    by (simp add: pauseAnimations_idem page1_paused)
  from 2 3 4 page1_resume page1_recovery[of "\<lambda>sc. calm_env 1000"] pauseAnimations_idem[of page1]
  show ?thesis by blast
qed

subsection \<open>Forced cleanup\<close>

text \<open>
  \<^verbatim>\<open>slice(-cap)\<close> keeps the last \<open>cap\<close> elements, and so an unthrottled \<^verbatim>\<open>cleanup()\<close>
  cuts every buffer over its cap to its newest elements.
\<close>

lemma js_slice_last_nat:
  assumes "0 < n"
  shows "js_slice (- real n) xs = drop (length xs - n) xs"
proof -
  have "\<lceil>- real n\<rceil> = - int n" by (metis ceiling_of_int of_int_minus of_int_of_nat_eq)
  then have t: "js_trunc (- real n) = - int n" using assms by (simp add: js_trunc_def)
  have "nat (max (int (length xs) + - int n) 0) = length xs - n" by simp
  with t assms show ?thesis by (simp add: js_slice_def Let_def)
qed

lemma js_slice_last_real:
  assumes "1 \<le> m"
  shows "js_slice (- m) xs = drop (length xs - nat \<lfloor>m\<rfloor>) xs"
proof -
  have f: "1 \<le> \<lfloor>m\<rfloor>" using assms by linarith
  have "\<lceil>- m\<rceil> = - \<lfloor>m\<rfloor>" by (simp add: ceiling_def)
  then have t: "js_trunc (- m) = - \<lfloor>m\<rfloor>" using assms by (simp add: js_trunc_def)
  have "nat (max (int (length xs) + - \<lfloor>m\<rfloor>) 0) = length xs - nat \<lfloor>m\<rfloor>"
    using f by linarith
  with t f show ?thesis by (simp add: js_slice_def Let_def)
qed

lemma cleanup_throttled:
  "now - MemoryManager_lastCleanup w < 5000 \<Longrightarrow> MemoryManager_cleanup now w = w"
  by (simp add: MemoryManager_cleanup_def)

lemma cleanup_trims_trails:
  assumes "\<not> now - MemoryManager_lastCleanup w < 5000"
    and "list_all (\<lambda>particle. 0 < maxTrailLength particle) (particles3D w)"
  shows "particles3D (MemoryManager_cleanup now w) =
           map (\<lambda>particle.
                  particle\<lparr> trail := drop (length (trail particle) - maxTrailLength particle)
                                       (trail particle) \<rparr>)
             (particles3D w)"
proof -
  have "(if length (trail p) > maxTrailLength p
         then p\<lparr> trail := js_slice (- real (maxTrailLength p)) (trail p) \<rparr> else p)
        = p\<lparr> trail := drop (length (trail p) - maxTrailLength p) (trail p) \<rparr>"
    if "p \<in> set (particles3D w)" for p
  proof -
    from that assms(2) have "0 < maxTrailLength p" by (simp add: list_all_iff)
    then show ?thesis by (simp add: js_slice_last_nat)
  qed
  then show ?thesis using assms(1) by (simp add: MemoryManager_cleanup_def)
qed

lemma cleanup_trims_glyphs:
  assumes "\<not> now - MemoryManager_lastCleanup w < 5000"
    and "list_all (\<lambda>column. 1 \<le> maxLength column) (MatrixCanvas_columns w)"
  shows "MatrixCanvas_columns (MemoryManager_cleanup now w) =
           map (\<lambda>column.
                  column\<lparr> characters :=
                            drop (length (characters column) - nat \<lfloor>maxLength column\<rfloor>)
                              (characters column) \<rparr>)
             (MatrixCanvas_columns w)"
proof -
  have "(if real (length (characters c)) > maxLength c
         then c\<lparr> characters := js_slice (- maxLength c) (characters c) \<rparr> else c)
        = c\<lparr> characters := drop (length (characters c) - nat \<lfloor>maxLength c\<rfloor>)
                               (characters c) \<rparr>"
    if "c \<in> set (MatrixCanvas_columns w)" for c
  proof (cases "real (length (characters c)) > maxLength c")
    case True
    from that assms(2) have "1 \<le> maxLength c" by (simp add: list_all_iff)
    with True show ?thesis by (simp add: js_slice_last_real)
  next
    case False
    then have "int (length (characters c)) \<le> \<lfloor>maxLength c\<rfloor>" by linarith
    then have "length (characters c) - nat \<lfloor>maxLength c\<rfloor> = 0" by linarith
    with False show ?thesis by simp
  qed
  then show ?thesis using assms(1) by (simp add: MemoryManager_cleanup_def)
qed

lemma page2_cleanup:
  "\<not> 6000 - MemoryManager_lastCleanup page2 < 5000"
  "list_all (\<lambda>particle. 0 < maxTrailLength particle) (particles3D page2)"
  "list_all (\<lambda>column. 1 \<le> maxLength column) (MatrixCanvas_columns page2)"
  "map (\<lambda>particle. length (trail particle)) (particles3D page2) = [9]"
  "map (\<lambda>column. length (characters column)) (MatrixCanvas_columns page2) = [6]"
  by (simp_all add: page2_def page1_def)

lemma page2_trimmed:
  "map trail (map (\<lambda>particle.
                  particle\<lparr> trail := drop (length (trail particle) - maxTrailLength particle)
                                       (trail particle) \<rparr>) (particles3D page2))
     = [[(2, 2, 0), (3, 3, 0), (4, 4, 0), (5, 5, 0), (6, 6, 0), (7, 7, 0), (8, 8, 0), (9, 9, 0)]]"
  "map (\<lambda>column. map g_age (characters column))
     (map (\<lambda>column.
                  column\<lparr> characters :=
                            drop (length (characters column) - nat \<lfloor>maxLength column\<rfloor>)
                              (characters column) \<rparr>) (MatrixCanvas_columns page2))
     = [[5, 4, 3, 2, 1]]"
  by (simp_all add: page2_def page1_def)

text \<open>
  Claim C10. After \<^verbatim>\<open>forceCleanup()\<close> every intro particle's trail and every matrix
  column's glyph buffer is empty, whatever they held and whether or not the throttled
  \<^verbatim>\<open>cleanup()\<close> it starts with did anything; the entities themselves remain. The
  periodic \<^verbatim>\<open>cleanup()\<close> alone only trims: within 5000 ms of the last one it does nothing;
  otherwise it leaves every buffer within its cap as it is and cuts a trail longer than
  \<open>maxTrailLength\<close> to its last \<open>maxTrailLength\<close> samples and a glyph buffer longer than
  \<open>maxLength\<close> to its last \<open>\<lfloor>maxLength\<rfloor>\<close> glyphs (caps of at least 1, as the
  constructors give them).
\<close>

theorem forceCleanup_empties:
  "list_all (\<lambda>particle. trail particle = []) (particles3D (MemoryManager_forceCleanup now w))
   \<and> list_all (\<lambda>column. characters column = [])
       (MatrixCanvas_columns (MemoryManager_forceCleanup now w))
   \<and> length (particles3D (MemoryManager_forceCleanup now w)) = length (particles3D w)
   \<and> length (MatrixCanvas_columns (MemoryManager_forceCleanup now w))
       = length (MatrixCanvas_columns w)
   \<and> (list_all (\<lambda>particle. length (trail particle) \<le> maxTrailLength particle) (particles3D w)
      \<longrightarrow> particles3D (MemoryManager_cleanup now w) = particles3D w)
   \<and> (list_all (\<lambda>column. real (length (characters column)) \<le> maxLength column)
         (MatrixCanvas_columns w)
      \<longrightarrow> MatrixCanvas_columns (MemoryManager_cleanup now w) = MatrixCanvas_columns w)
   \<and> (now - MemoryManager_lastCleanup w < 5000 \<longrightarrow> MemoryManager_cleanup now w = w)
   \<and> (\<not> now - MemoryManager_lastCleanup w < 5000
        \<and> list_all (\<lambda>particle. 0 < maxTrailLength particle) (particles3D w)
      \<longrightarrow> particles3D (MemoryManager_cleanup now w) =
            map (\<lambda>particle.
                   particle\<lparr> trail := drop (length (trail particle) - maxTrailLength particle)
                                        (trail particle) \<rparr>)
              (particles3D w))
   \<and> (\<not> now - MemoryManager_lastCleanup w < 5000
        \<and> list_all (\<lambda>column. 1 \<le> maxLength column) (MatrixCanvas_columns w)
      \<longrightarrow> MatrixCanvas_columns (MemoryManager_cleanup now w) =
            map (\<lambda>column.
                   column\<lparr> characters :=
                             drop (length (characters column) - nat \<lfloor>maxLength column\<rfloor>)
                               (characters column) \<rparr>)
              (MatrixCanvas_columns w))"
proof -
  have 1: "list_all (\<lambda>particle. length (trail particle) \<le> maxTrailLength particle)
             (particles3D w)
      \<longrightarrow> particles3D (MemoryManager_cleanup now w) = particles3D w"
    by (auto simp: MemoryManager_cleanup_def list_all_iff intro!: map_idI)
  have 2: "list_all (\<lambda>column. real (length (characters column)) \<le> maxLength column)
         (MatrixCanvas_columns w)
      \<longrightarrow> MatrixCanvas_columns (MemoryManager_cleanup now w) = MatrixCanvas_columns w"
    by (auto simp: MemoryManager_cleanup_def list_all_iff intro!: map_idI)
  have 3: "list_all (\<lambda>particle. trail particle = [])
             (particles3D (MemoryManager_forceCleanup now w))"
    "list_all (\<lambda>column. characters column = [])
       (MatrixCanvas_columns (MemoryManager_forceCleanup now w))"
    "length (particles3D (MemoryManager_forceCleanup now w)) = length (particles3D w)"
    "length (MatrixCanvas_columns (MemoryManager_forceCleanup now w))
       = length (MatrixCanvas_columns w)"
    by (simp_all add: MemoryManager_forceCleanup_def MemoryManager_cleanup_def Let_def
        list_all_iff)
  have 4: "now - MemoryManager_lastCleanup w < 5000 \<longrightarrow> MemoryManager_cleanup now w = w"
    by (simp add: cleanup_throttled)
  have 5: "\<not> now - MemoryManager_lastCleanup w < 5000
        \<and> list_all (\<lambda>particle. 0 < maxTrailLength particle) (particles3D w)
      \<longrightarrow> particles3D (MemoryManager_cleanup now w) =
            map (\<lambda>particle.
                   particle\<lparr> trail := drop (length (trail particle) - maxTrailLength particle)
                                        (trail particle) \<rparr>)
              (particles3D w)"
    using cleanup_trims_trails[of now w] by blast
  have 6: "\<not> now - MemoryManager_lastCleanup w < 5000
        \<and> list_all (\<lambda>column. 1 \<le> maxLength column) (MatrixCanvas_columns w)
      \<longrightarrow> MatrixCanvas_columns (MemoryManager_cleanup now w) =
            map (\<lambda>column.
                   column\<lparr> characters :=
                             drop (length (characters column) - nat \<lfloor>maxLength column\<rfloor>)
                               (characters column) \<rparr>)
              (MatrixCanvas_columns w)"
    using cleanup_trims_glyphs[of now w] by blast
  from 1 2 3 4 5 6 show ?thesis by blast
qed

theorem forceCleanup_empties_witness:
  "map trail (particles3D page1) = [[(1, 1, 0), (2, 2, 0)]]
   \<and> map trail (particles3D (MemoryManager_forceCleanup 6000 page1)) = [[]]
   \<and> map characters (MatrixCanvas_columns (MemoryManager_forceCleanup 6000 page1)) = [[]]
   \<and> map trail (particles3D (MemoryManager_cleanup 6000 page1)) = [[(1, 1, 0), (2, 2, 0)]]
   \<and> MatrixCanvas_columns (MemoryManager_cleanup 6000 page1) = MatrixCanvas_columns page1
   \<and> MemoryManager_cleanup 1000 page1 = page1
   \<and> map (\<lambda>particle. length (trail particle)) (particles3D page2) = [9]
   \<and> map (\<lambda>column. length (characters column)) (MatrixCanvas_columns page2) = [6]
   \<and> map trail (particles3D (MemoryManager_cleanup 6000 page2))
       = [[(2, 2, 0), (3, 3, 0), (4, 4, 0), (5, 5, 0), (6, 6, 0), (7, 7, 0), (8, 8, 0),
           (9, 9, 0)]]
   \<and> map (\<lambda>column. map g_age (characters column))
        (MatrixCanvas_columns (MemoryManager_cleanup 6000 page2)) = [[5, 4, 3, 2, 1]]"
proof -
  have l: "length (particles3D page1) = 1" "length (MatrixCanvas_columns page1) = 1"
    "map trail (particles3D page1) = [[(1, 1, 0), (2, 2, 0)]]"
    "list_all (\<lambda>particle. length (trail particle) \<le> maxTrailLength particle)
       (particles3D page1)"
    "list_all (\<lambda>column. real (length (characters column)) \<le> maxLength column)
       (MatrixCanvas_columns page1)"
    "1000 - MemoryManager_lastCleanup page1 < 5000"
    by (simp_all add: page1_def)
  have one: "\<And>xs P. length xs = Suc 0 \<Longrightarrow> list_all P xs \<Longrightarrow> P (hd xs) \<and> xs = [hd xs]"
    by (case_tac xs) simp_all
  note T = forceCleanup_empties [where now = 6000 and w = page1]
  note T1 = forceCleanup_empties [where now = 1000 and w = page1]
  note T2 = forceCleanup_empties [where now = 6000 and w = page2]
  have p: "map trail (particles3D (MemoryManager_forceCleanup 6000 page1)) = [[]]"
    using one[OF _ T [THEN conjunct1]] T [THEN conjunct2, THEN conjunct2, THEN conjunct1] l(1)
    by (metis One_nat_def list.simps(8) list.simps(9))
  have c: "map characters (MatrixCanvas_columns (MemoryManager_forceCleanup 6000 page1)) = [[]]"
    using one[OF _ T [THEN conjunct2, THEN conjunct1]]
      T [THEN conjunct2, THEN conjunct2, THEN conjunct2, THEN conjunct1] l(2)
    by (metis One_nat_def list.simps(8) list.simps(9))
  have k: "map trail (particles3D (MemoryManager_cleanup 6000 page1)) = [[(1, 1, 0), (2, 2, 0)]]"
    using T [THEN conjunct2, THEN conjunct2, THEN conjunct2, THEN conjunct2, THEN conjunct1]
      l(3,4) by simp
  have k2: "MatrixCanvas_columns (MemoryManager_cleanup 6000 page1) = MatrixCanvas_columns page1"
    using T [THEN conjunct2, THEN conjunct2, THEN conjunct2, THEN conjunct2, THEN conjunct2,
        THEN conjunct1] l(5) by simp
  have k3: "MemoryManager_cleanup 1000 page1 = page1"
    using T1 [THEN conjunct2, THEN conjunct2, THEN conjunct2, THEN conjunct2, THEN conjunct2,
        THEN conjunct2, THEN conjunct1] l(6) by blast
  have t1: "particles3D (MemoryManager_cleanup 6000 page2) =
            map (\<lambda>particle.
                   particle\<lparr> trail := drop (length (trail particle) - maxTrailLength particle)
                                        (trail particle) \<rparr>)
              (particles3D page2)"
    using T2 [THEN conjunct2, THEN conjunct2, THEN conjunct2, THEN conjunct2, THEN conjunct2,
        THEN conjunct2, THEN conjunct2, THEN conjunct1] page2_cleanup(1,2) by blast
  have t2: "MatrixCanvas_columns (MemoryManager_cleanup 6000 page2) =
            map (\<lambda>column.
                   column\<lparr> characters :=
                             drop (length (characters column) - nat \<lfloor>maxLength column\<rfloor>)
                               (characters column) \<rparr>)
              (MatrixCanvas_columns page2)"
    using T2 [THEN conjunct2, THEN conjunct2, THEN conjunct2, THEN conjunct2, THEN conjunct2,
        THEN conjunct2, THEN conjunct2, THEN conjunct2] page2_cleanup(1,3) by blast
  have t3: "map trail (particles3D (MemoryManager_cleanup 6000 page2))
       = [[(2, 2, 0), (3, 3, 0), (4, 4, 0), (5, 5, 0), (6, 6, 0), (7, 7, 0), (8, 8, 0),
           (9, 9, 0)]]"
    unfolding t1 by (rule page2_trimmed(1))
  have t4: "map (\<lambda>column. map g_age (characters column))
        (MatrixCanvas_columns (MemoryManager_cleanup 6000 page2)) = [[5, 4, 3, 2, 1]]"
    unfolding t2 by (rule page2_trimmed(2))
  from l(3) p c k k2 k3 page2_cleanup(4,5) t3 t4 show ?thesis by blast
qed

end
